theory Spec2Isabelle
  imports Complex_Main "HOL-Library.Log_Nat"
begin

section \<open>Values, errors and outcomes\<close>

text \<open>
  Identifiers annotated \<open>int\<close> are \<open>int\<close>. A parameter whose name is also a field name
  is shortened: \<open>uid\<close> for \<open>user_id\<close>, \<open>tid\<close> for \<open>task_id\<close>, \<open>aid\<close> for \<open>account_id\<close>.
  The reading of the clock (\<open>datetime.now()\<close>) is an input of the operation that takes
  it, a \<open>nat\<close> of ticks.

  The history classes store dictionaries built from literals whose values have different
  types (numbers, strings, timestamps, lists of dictionaries), so a dictionary is an
  association list from keys to tagged values, in insertion order; \<open>d["k"]\<close> is
  \<open>map_of d ''k''\<close>, with \<open>KeyError\<close> where the key is missing. A stored amount is kept as
  the number it denotes.
\<close>

datatype pyval =
    PyInt int
  | PyFloat real
  | PyStr string
  | PyDatetime nat
  | PyList "pyval list"
  | PyDict "(string \<times> pyval) list"

type_synonym pydict = "(string \<times> pyval) list"

text \<open>
  The source's messages are Russian sentences; the model carries an English rendering of
  each, one constant per \<open>raise\<close> statement.
\<close>

datatype error = ValueError string | KeyError string

definition msg_deposit_not_positive :: string where
  "msg_deposit_not_positive = ''deposit amount must be positive''"

definition msg_withdraw_not_positive :: string where
  "msg_withdraw_not_positive = ''withdrawal amount must be positive''"

definition msg_insufficient_balance :: string where
  "msg_insufficient_balance = ''insufficient funds on the balance''"

definition msg_insufficient_for_task :: string where
  "msg_insufficient_for_task = ''insufficient funds to run the task''"

text \<open>
  A method that mutates \<open>self\<close> and may raise returns its outcome together with the
  object as it is when the method is left: \<open>Inl e\<close> when it raised \<open>e\<close>, \<open>Inr v\<close> when it
  returned \<open>v\<close> (\<open>()\<close> for \<open>None\<close>).
\<close>

type_synonym ('a, 's) outcome = "(error + 'a) \<times> 's"

definition raises_ValueError :: "('a, 's) outcome \<Rightarrow> bool" where
  "raises_ValueError r = (case fst r of Inl (ValueError m) \<Rightarrow> True | _ \<Rightarrow> False)"

text \<open>
  \<open>v == k\<close> for a stored value \<open>v\<close> and an \<open>int\<close> \<open>k\<close>: numbers compare by value across
  \<open>int\<close> and \<open>float\<close>; a string, timestamp, list or dictionary never equals a number.
\<close>

fun py_eq_int :: "pyval \<Rightarrow> int \<Rightarrow> bool" where
  "py_eq_int (PyInt n) k = (n = k)"
| "py_eq_int (PyFloat r) k = (r = real_of_int k)"
| "py_eq_int v k = False"

text \<open>
  The comprehension \<open>[t for t in records if t["user_id"] == user_id]\<close>, which all three
  history getters run over their stored list. The subscript raises \<open>KeyError\<close> at the
  first record without the key.
\<close>

fun user_records :: "pydict list \<Rightarrow> int \<Rightarrow> error + pydict list" where
  "user_records [] uid = Inr []"
| "user_records (t # ts) uid =
     (case map_of t ''user_id'' of
        None \<Rightarrow> Inl (KeyError ''user_id'')
      | Some v \<Rightarrow>
          (case user_records ts uid of
             Inl e \<Rightarrow> Inl e
           | Inr rs \<Rightarrow> Inr (if py_eq_int v uid then t # rs else rs)))"

text \<open>
  What the getters are specified to return, in the words of the specification: the stored
  records whose \<open>"user_id"\<close> field equals the given id, selected with the library's
  \<open>filter\<close>. \<open>has_user_id\<close> says that a record has the field at all.
\<close>

definition has_user_id :: "pydict \<Rightarrow> bool" where
  "has_user_id t = (map_of t ''user_id'' \<noteq> None)"

definition user_id_equals :: "int \<Rightarrow> pydict \<Rightarrow> bool" where
  "user_id_equals uid t =
     (case map_of t ''user_id'' of None \<Rightarrow> False | Some v \<Rightarrow> py_eq_int v uid)"

section \<open>Numbers\<close>

text \<open>
  Both modules keep money in Python numbers and apply \<open><=\<close>, \<open><\<close>, \<open>>\<close>, \<open>>=\<close>, \<open>+=\<close> and
  \<open>-=\<close> to them, with the constants \<open>0\<close> and \<open>1.0\<close>. The balance operations are therefore
  written once, over any type \<open>'n\<close> that has \<open>0\<close>, \<open>1\<close>, \<open>\<le>\<close>, \<open><\<close>, \<open>+\<close> and \<open>-\<close>, and read at
  two types:
  \<^item> \<open>real\<close>, where the arithmetic is exact (what Python does on \<open>int\<close>, and on \<open>float\<close> as
    long as no result is rounded);
  \<^item> \<open>pyfloat\<close> below, the IEEE 754 binary64 numbers that the annotation \<open>float\<close> names:
    finite doubles, the two infinities and NaN, with round-to-nearest, ties-to-even.

  A finite double is given by the real number it denotes; the two zeros, which compare
  equal, are one value. \<open>round64 x\<close> is the double nearest to the real \<open>x\<close>: the spacing of
  the doubles around \<open>x\<close> is \<open>2 ^ (e - 52)\<close> for \<open>e = \<lfloor>log\<^sub>2 \<bar>x\<bar>\<rfloor>\<close>, and no smaller than
  \<open>2 ^ - 1074\<close>; a result of magnitude \<open>2 ^ 1024\<close> or more is an infinity.
\<close>

datatype pyfloat = Finite real | PosInf | NegInf | NaN

text \<open>\<open>\<lfloor>log\<^sub>2 x\<rfloor>\<close> for \<open>x > 0\<close>, computed from bit lengths of integers.\<close>

definition binary_exponent :: "real \<Rightarrow> int" where
  "binary_exponent x =
     (if 1 \<le> x then bitlen \<lfloor>x\<rfloor> - 1 else - bitlen (\<lceil>1 / x\<rceil> - 1))"

definition round_half_even :: "real \<Rightarrow> int" where
  "round_half_even q =
     (let f = \<lfloor>q\<rfloor>; d = q - of_int f
      in if d < 1 / 2 then f else if 1 / 2 < d then f + 1 else if even f then f else f + 1)"

text \<open>The spacing of the doubles around \<open>x\<close>; subnormal below \<open>2 ^ - 1022\<close>.\<close>

definition ulp :: "real \<Rightarrow> real" where
  "ulp x = 2 powi (max (binary_exponent \<bar>x\<bar>) (- 1022) - 52)"

definition round64 :: "real \<Rightarrow> pyfloat" where
  "round64 x =
     (let y = of_int (round_half_even (x / ulp x)) * ulp x
      in if 2 ^ 1024 \<le> \<bar>y\<bar> then (if 0 < x then PosInf else NegInf) else Finite y)"

text \<open>A real number is a double when rounding leaves it as it is.\<close>

definition is_double :: "real \<Rightarrow> bool" where
  "is_double x = (round64 x = Finite x)"

text \<open>
  Addition, negation and the comparisons of doubles. NaN is the result of
  \<open>inf - inf\<close> and of every operation on a NaN, and compares false with everything.
\<close>

fun fl_add :: "pyfloat \<Rightarrow> pyfloat \<Rightarrow> pyfloat" where
  "fl_add NaN b = NaN"
| "fl_add a NaN = NaN"
| "fl_add (Finite x) (Finite y) = round64 (x + y)"
| "fl_add PosInf NegInf = NaN"
| "fl_add NegInf PosInf = NaN"
| "fl_add PosInf b = PosInf"
| "fl_add a PosInf = PosInf"
| "fl_add NegInf b = NegInf"
| "fl_add a NegInf = NegInf"

fun fl_neg :: "pyfloat \<Rightarrow> pyfloat" where
  "fl_neg (Finite x) = Finite (- x)"
| "fl_neg PosInf = NegInf"
| "fl_neg NegInf = PosInf"
| "fl_neg NaN = NaN"

fun fl_less :: "pyfloat \<Rightarrow> pyfloat \<Rightarrow> bool" where
  "fl_less NaN b = False"
| "fl_less a NaN = False"
| "fl_less (Finite x) (Finite y) = (x < y)"
| "fl_less a NegInf = False"
| "fl_less NegInf b = True"
| "fl_less PosInf b = False"
| "fl_less a PosInf = True"

fun fl_less_eq :: "pyfloat \<Rightarrow> pyfloat \<Rightarrow> bool" where
  "fl_less_eq NaN b = False"
| "fl_less_eq a NaN = False"
| "fl_less_eq (Finite x) (Finite y) = (x \<le> y)"
| "fl_less_eq NegInf b = True"
| "fl_less_eq a PosInf = True"
| "fl_less_eq a NegInf = False"
| "fl_less_eq PosInf b = False"

instantiation pyfloat :: "{zero, one, plus, minus, ord}"
begin

definition zero_pyfloat :: pyfloat where
  "zero_pyfloat = Finite 0"

definition one_pyfloat :: pyfloat where
  "one_pyfloat = Finite 1"

definition plus_pyfloat :: "pyfloat \<Rightarrow> pyfloat \<Rightarrow> pyfloat" where
  "plus_pyfloat a b = fl_add a b"

definition minus_pyfloat :: "pyfloat \<Rightarrow> pyfloat \<Rightarrow> pyfloat" where
  "minus_pyfloat a b = fl_add a (fl_neg b)"

definition less_eq_pyfloat :: "pyfloat \<Rightarrow> pyfloat \<Rightarrow> bool" where
  "less_eq_pyfloat a b = fl_less_eq a b"

definition less_pyfloat :: "pyfloat \<Rightarrow> pyfloat \<Rightarrow> bool" where
  "less_pyfloat a b = fl_less a b"

instance ..

end

section \<open>src/mod\_serv.py\<close>

subsection \<open>Account\<close>

record 'n Account =
  user_id :: int
  balance :: 'n
  created_at :: nat

definition Account_init :: "int \<Rightarrow> 'n \<Rightarrow> nat \<Rightarrow> 'n Account" where
  "Account_init uid initial_balance now =
     \<lparr>Account.user_id = uid, balance = initial_balance, created_at = now\<rparr>"

text \<open>\<open>Account(user_id)\<close>: the default \<open>initial_balance = 0.0\<close>.\<close>

definition Account_init_default :: "int \<Rightarrow> nat \<Rightarrow> ('n::zero) Account" where
  "Account_init_default uid now = Account_init uid 0 now"

definition deposit ::
  "('n::{zero,ord,plus}) Account \<Rightarrow> 'n \<Rightarrow> (unit, 'n Account) outcome" where
  "deposit self amount =
     (if amount \<le> 0 then (Inl (ValueError msg_deposit_not_positive), self)
      else (Inr (), self\<lparr>Account.balance := Account.balance self + amount\<rparr>))"

definition withdraw ::
  "('n::{zero,ord,minus}) Account \<Rightarrow> 'n \<Rightarrow> (unit, 'n Account) outcome" where
  "withdraw self amount =
     (if amount \<le> 0 then (Inl (ValueError msg_withdraw_not_positive), self)
      else if Account.balance self < amount
        then (Inl (ValueError msg_insufficient_balance), self)
      else (Inr (), self\<lparr>Account.balance := Account.balance self - amount\<rparr>))"

subsection \<open>User and Admin\<close>

text \<open>
  \<open>User\<close> holds no balance in this module. Its password hash comes from \<open>bcrypt\<close>, a
  library outside the repository, with a random salt; the record keeps the hash as
  bytes and the constructor and \<open>verify_password\<close> are not modelled.
\<close>

datatype Role = USER | ADMIN

record User =
  user_id :: int
  username :: string
  hashed_password :: string
  role :: Role
  created_at :: nat

subsection \<open>ExampleMLModel\<close>

text \<open>
  \<open>MLModel.predict\<close> is abstract: a model is what its \<open>predict\<close> does with the list of
  input dictionaries, which is to return a list of result dictionaries or to raise. The
  stub \<open>ExampleMLModel.predict\<close> always returns; \<open>ExampleMLModel\<close> is the stub as a model.
\<close>

type_synonym MLModel = "pydict list \<Rightarrow> error + pydict list"

definition ExampleMLModel_predict :: "pydict list \<Rightarrow> pydict list" where
  "ExampleMLModel_predict data =
     map (\<lambda>(i, _). [(''prediction'', PyInt (int i mod 2)), (''confidence'', PyFloat 0.95)])
       (enumerate 0 data)"

definition ExampleMLModel :: MLModel where
  "ExampleMLModel xs = Inr (ExampleMLModel_predict xs)"

subsection \<open>PredictionHistory\<close>

record PredictionHistory =
  history :: "pydict list"

definition PredictionHistory_init :: PredictionHistory where
  "PredictionHistory_init = \<lparr>history = []\<rparr>"

definition add_prediction ::
  "PredictionHistory \<Rightarrow> int \<Rightarrow> int \<Rightarrow> pydict list \<Rightarrow> pydict list \<Rightarrow> nat \<Rightarrow> PredictionHistory"
where
  "add_prediction self tid uid input_data result now =
     self\<lparr>history := history self @
       [[(''task_id'', PyInt tid),
         (''user_id'', PyInt uid),
         (''input_data'', PyList (map PyDict input_data)),
         (''result'', PyList (map PyDict result)),
         (''timestamp'', PyDatetime now)]]\<rparr>"

definition get_user_history ::
  "PredictionHistory \<Rightarrow> int \<Rightarrow> (pydict list, PredictionHistory) outcome" where
  "get_user_history self uid = (user_records (history self) uid, self)"

subsection \<open>MLTask\<close>

definition TASK_COST :: "'n::one" where
  "TASK_COST = 1"

record 'n MLTask =
  task_id :: int
  user :: User
  account :: "'n Account"
  data :: "pydict list"
  model :: MLModel

definition MLTask_init ::
  "int \<Rightarrow> User \<Rightarrow> 'n Account \<Rightarrow> pydict list \<Rightarrow> MLModel \<Rightarrow> 'n MLTask" where
  "MLTask_init tid u a d m =
     \<lparr>MLTask.task_id = tid, user = u, account = a, data = d, model = m\<rparr>"

text \<open>
  \<open>execute\<close> charges first and calls \<open>predict\<close> last: what \<open>predict\<close> returns or raises is
  what \<open>execute\<close> returns or raises, on the charged account.
\<close>

definition execute ::
  "('n::{zero,one,ord,minus}) MLTask \<Rightarrow> (pydict list, 'n MLTask) outcome" where
  "execute self =
     (if Account.balance (account self) < TASK_COST
        then (Inl (ValueError msg_insufficient_for_task), self)
      else
        (case withdraw (account self) TASK_COST of
           (Inl e, a) \<Rightarrow> (Inl e, self\<lparr>account := a\<rparr>)
         | (Inr _, a) \<Rightarrow> (model self (data self), self\<lparr>account := a\<rparr>)))"

subsection \<open>TransactionHistory\<close>

record TransactionHistory =
  transactions :: "pydict list"

definition TransactionHistory_init :: TransactionHistory where
  "TransactionHistory_init = \<lparr>transactions = []\<rparr>"

definition add_transaction ::
  "TransactionHistory \<Rightarrow> int \<Rightarrow> int \<Rightarrow> real \<Rightarrow> string \<Rightarrow> nat \<Rightarrow> TransactionHistory"
where
  "add_transaction self uid aid amount description now =
     self\<lparr>transactions := transactions self @
       [[(''user_id'', PyInt uid),
         (''account_id'', PyInt aid),
         (''amount'', PyFloat amount),
         (''description'', PyStr description),
         (''timestamp'', PyDatetime now)]]\<rparr>"

definition get_user_transactions ::
  "TransactionHistory \<Rightarrow> int \<Rightarrow> (pydict list, TransactionHistory) outcome" where
  "get_user_transactions self uid = (user_records (transactions self) uid, self)"

section \<open>src/VScode/Lession1/mod\_serv.py\<close>

text \<open>
  The older module. Classes that share a name with one of \<open>src/mod_serv.py\<close> carry the
  prefix \<open>Lession1\<close>, and fields are written with their record's name
  (\<open>Lession1_User.balance\<close>, \<open>Account.balance\<close>).
\<close>

subsection \<open>User and Admin\<close>

record 'n Lession1_User =
  user_id :: int
  username :: string
  password :: string
  balance :: 'n
  role :: string

definition Lession1_User_init ::
  "int \<Rightarrow> string \<Rightarrow> string \<Rightarrow> 'n \<Rightarrow> string \<Rightarrow> 'n Lession1_User" where
  "Lession1_User_init uid name pw initial_balance r =
     \<lparr>Lession1_User.user_id = uid, username = name, password = pw,
      balance = initial_balance, role = r\<rparr>"

text \<open>\<open>User(user_id, username, password)\<close>: the defaults \<open>balance = 0.0\<close>, \<open>role = "user"\<close>.\<close>

definition Lession1_User_init_default ::
  "int \<Rightarrow> string \<Rightarrow> string \<Rightarrow> ('n::zero) Lession1_User" where
  "Lession1_User_init_default uid name pw = Lession1_User_init uid name pw 0 ''user''"

text \<open>\<open>Admin\<close> is a \<open>User\<close> built with the default balance and the role \<open>"admin"\<close>.\<close>

definition Lession1_Admin_init ::
  "int \<Rightarrow> string \<Rightarrow> string \<Rightarrow> ('n::zero) Lession1_User" where
  "Lession1_Admin_init uid name pw = Lession1_User_init uid name pw 0 ''admin''"

definition add_balance ::
  "('n::{zero,ord,plus}) Lession1_User \<Rightarrow> 'n \<Rightarrow> (unit, 'n Lession1_User) outcome" where
  "add_balance self amount =
     (if amount > 0
        then (Inr (), self\<lparr>Lession1_User.balance := Lession1_User.balance self + amount\<rparr>)
      else (Inl (ValueError msg_deposit_not_positive), self))"

definition deduct_balance ::
  "('n::{ord,minus}) Lession1_User \<Rightarrow> 'n \<Rightarrow> (unit, 'n Lession1_User) outcome" where
  "deduct_balance self amount =
     (if Lession1_User.balance self \<ge> amount
        then (Inr (), self\<lparr>Lession1_User.balance := Lession1_User.balance self - amount\<rparr>)
      else (Inl (ValueError msg_insufficient_balance), self))"

text \<open>
  \<open>Admin.add_user_balance(user, amount)\<close> mutates \<open>user\<close> only; the outcome carries the
  user.
\<close>

definition add_user_balance ::
  "'n Lession1_User \<Rightarrow> ('n::{zero,ord,plus}) Lession1_User \<Rightarrow> 'n \<Rightarrow>
     (unit, 'n Lession1_User) outcome" where
  "add_user_balance self u amount = add_balance u amount"

subsection \<open>ExampleMLModel\<close>

definition Lession1_ExampleMLModel_predict :: "pydict list \<Rightarrow> pydict list" where
  "Lession1_ExampleMLModel_predict xs = map (\<lambda>_. [(''prediction'', PyInt 1)]) xs"

definition Lession1_ExampleMLModel :: MLModel where
  "Lession1_ExampleMLModel xs = Inr (Lession1_ExampleMLModel_predict xs)"

subsection \<open>MLTask\<close>

record 'n Lession1_MLTask =
  task_id :: int
  user :: "'n Lession1_User"
  data :: "pydict list"
  model :: MLModel

definition Lession1_MLTask_init ::
  "int \<Rightarrow> 'n Lession1_User \<Rightarrow> pydict list \<Rightarrow> MLModel \<Rightarrow> 'n Lession1_MLTask" where
  "Lession1_MLTask_init tid u d m =
     \<lparr>Lession1_MLTask.task_id = tid, user = u, data = d, model = m\<rparr>"

definition Lession1_execute ::
  "('n::{one,ord,minus}) Lession1_MLTask \<Rightarrow> (pydict list, 'n Lession1_MLTask) outcome" where
  "Lession1_execute self =
     (if Lession1_User.balance (Lession1_MLTask.user self) \<ge> 1
        then
          (case deduct_balance (Lession1_MLTask.user self) 1 of
             (Inl e, u) \<Rightarrow> (Inl e, self\<lparr>Lession1_MLTask.user := u\<rparr>)
           | (Inr _, u) \<Rightarrow>
               (Lession1_MLTask.model self (Lession1_MLTask.data self),
                self\<lparr>Lession1_MLTask.user := u\<rparr>))
      else (Inl (ValueError msg_insufficient_balance), self))"

subsection \<open>TransactionHistory\<close>

record Lession1_TransactionHistory =
  transactions :: "pydict list"

definition Lession1_TransactionHistory_init :: Lession1_TransactionHistory where
  "Lession1_TransactionHistory_init = \<lparr>Lession1_TransactionHistory.transactions = []\<rparr>"

definition Lession1_add_transaction ::
  "Lession1_TransactionHistory \<Rightarrow> 'n Lession1_User \<Rightarrow> real \<Rightarrow> string \<Rightarrow>
     Lession1_TransactionHistory"
where
  "Lession1_add_transaction self u amount description =
     self\<lparr>Lession1_TransactionHistory.transactions :=
       Lession1_TransactionHistory.transactions self @
       [[(''user_id'', PyInt (Lession1_User.user_id u)),
         (''amount'', PyFloat amount),
         (''description'', PyStr description)]]\<rparr>"

definition Lession1_get_user_transactions ::
  "Lession1_TransactionHistory \<Rightarrow> 'n Lession1_User \<Rightarrow>
     (pydict list, Lession1_TransactionHistory) outcome" where
  "Lession1_get_user_transactions self u =
     (user_records (Lession1_TransactionHistory.transactions self) (Lession1_User.user_id u), self)"

section \<open>The double-precision numbers\<close>

text \<open>
  Facts about \<open>pyfloat\<close> that the theorems on the balance operations use, and checks of
  the rounding function against the definition of binary64: \<open>binary_exponent\<close> is
  \<open>\<lfloor>log\<^sub>2 x\<rfloor>\<close>, the rounded value is within half a spacing of the argument, and a few
  values that Python prints (\<open>0.1\<close>, \<open>1e17 - 1\<close>, the ties at \<open>2 ^ 53 + 1\<close> and
  \<open>2 ^ 53 + 3\<close>).
\<close>

lemma pyfloat_ord_simps:
  "(a::pyfloat) \<le> b \<longleftrightarrow> fl_less_eq a b"
  "(a::pyfloat) < b \<longleftrightarrow> fl_less a b"
  "(a::pyfloat) + b = fl_add a b"
  "(a::pyfloat) - b = fl_add a (fl_neg b)"
  "(0::pyfloat) = Finite 0"
  "(1::pyfloat) = Finite 1"
  by (simp_all add: less_eq_pyfloat_def less_pyfloat_def plus_pyfloat_def minus_pyfloat_def
      zero_pyfloat_def one_pyfloat_def)

lemma powi_nat: "0 \<le> k \<Longrightarrow> (2::real) powi k = 2 ^ nat k"
  by (simp add: power_int_def)

lemma powi_neg_nat: "0 \<le> k \<Longrightarrow> (2::real) powi (- k) = 1 / 2 ^ nat k"
  by (simp add: power_int_minus powi_nat field_simps)

lemma of_int_pow2_le:
  fixes n :: int
  shows "n \<le> 2 ^ k \<Longrightarrow> real_of_int n \<le> 2 ^ k"
    and "2 ^ k \<le> n \<Longrightarrow> 2 ^ k \<le> real_of_int n"
proof -
  have "real_of_int (2 ^ k) = 2 ^ k"
    by simp
  then show "n \<le> 2 ^ k \<Longrightarrow> real_of_int n \<le> 2 ^ k"
    and "2 ^ k \<le> n \<Longrightarrow> 2 ^ k \<le> real_of_int n"
    by (metis of_int_le_iff)+
qed

lemma binary_exponent_bounds:
  assumes "0 < x"
  shows "2 powi binary_exponent x \<le> x" and "x < 2 powi (binary_exponent x + 1)"
proof -
  have "2 powi binary_exponent x \<le> x \<and> x < 2 powi (binary_exponent x + 1)"
  proof (cases "1 \<le> x")
    case True
    define n where "n = \<lfloor>x\<rfloor>"
    define b where "b = bitlen n"
    from True have n: "0 < n"
      by (simp add: n_def)
    from bitlen_bounds [OF n]
    have lo: "2 ^ nat (b - 1) \<le> n" and hi: "n < 2 ^ nat b"
      by (simp_all add: b_def)
    from n have b: "1 \<le> b"
      using bitlen_eq_zero_iff [of n] bitlen_nonneg [of n] by (simp add: b_def)
    have e: "binary_exponent x = b - 1"
      using True by (simp add: binary_exponent_def b_def n_def)
    have "2 ^ nat (b - 1) \<le> real_of_int n"
      using lo by (rule of_int_pow2_le)
    also have "\<dots> \<le> x"
      by (simp add: n_def)
    finally have 1: "2 powi (b - 1) \<le> x"
      using b by (simp add: powi_nat)
    from hi have "n + 1 \<le> 2 ^ nat b"
      by simp
    then have "real_of_int (n + 1) \<le> 2 ^ nat b"
      by (rule of_int_pow2_le)
    moreover have "x < real_of_int (n + 1)"
      by (simp add: n_def)
    ultimately have "x < 2 ^ nat b"
      by linarith
    then have 2: "x < 2 powi b"
      using b by (simp add: powi_nat)
    from 1 2 e show ?thesis
      by simp
  next
    case False
    define y where "y = 1 / x"
    define c where "c = \<lceil>y\<rceil>"
    define b where "b = bitlen (c - 1)"
    from False assms have y: "1 < y"
      by (simp add: y_def)
    then have c: "0 < c - 1"
      by (simp add: c_def)
    from bitlen_bounds [OF c]
    have lo: "2 ^ nat (b - 1) \<le> c - 1" and hi: "c - 1 < 2 ^ nat b"
      by (simp_all add: b_def)
    from c have b: "1 \<le> b"
      using bitlen_eq_zero_iff [of "c - 1"] bitlen_nonneg [of "c - 1"]
      by (simp add: b_def)
    have e: "binary_exponent x = - b"
      using False by (simp add: binary_exponent_def b_def c_def y_def)
    from hi have "c \<le> 2 ^ nat b"
      by simp
    then have "real_of_int c \<le> 2 ^ nat b"
      by (rule of_int_pow2_le)
    moreover have "y \<le> real_of_int c"
      by (simp add: c_def)
    ultimately have "y \<le> 2 ^ nat b"
      by linarith
    with y have "1 / 2 ^ nat b \<le> 1 / y"
      by (simp add: field_simps)
    moreover have "1 / y = x"
      by (simp add: y_def)
    moreover have "2 powi (- b) = 1 / (2::real) ^ nat b"
      using b by (simp add: powi_neg_nat)
    ultimately have 1: "2 powi (- b) \<le> x"
      by (simp only:)
    have "2 ^ nat (b - 1) \<le> real_of_int (c - 1)"
      using lo by (rule of_int_pow2_le)
    moreover have "real_of_int (c - 1) < y"
      by (simp add: c_def) linarith
    ultimately have "2 ^ nat (b - 1) < y"
      by linarith
    with y have "1 / y < 1 / 2 ^ nat (b - 1)"
      by (simp add: field_simps)
    moreover have "1 / y = x"
      by (simp add: y_def)
    moreover have "2 powi (- b + 1) = 1 / (2::real) ^ nat (b - 1)"
      using b powi_neg_nat [of "b - 1"] by simp
    ultimately have 2: "x < 2 powi (- b + 1)"
      by (simp only:)
    from 1 2 e show ?thesis
      by simp
  qed
  then show "2 powi binary_exponent x \<le> x" and "x < 2 powi (binary_exponent x + 1)"
    by simp_all
qed

lemma powi_less_imp:
  assumes "(2::real) powi m < 2 powi n"
  shows "m < n"
proof (rule ccontr)
  assume "\<not> m < n"
  then have "n \<le> m"
    by simp
  then have "(2::real) powi n \<le> 2 powi m"
    by (rule power_int_increasing) simp
  with assms show False
    by simp
qed

lemma binary_exponent_eqI:
  assumes "2 powi e \<le> x" and "x < 2 powi (e + 1)"
  shows "binary_exponent x = e"
proof -
  have "0 < (2::real) powi e"
    by simp
  with assms(1) have pos: "0 < x"
    by linarith
  note b = binary_exponent_bounds [OF pos]
  from b(1) assms(2) have "(2::real) powi binary_exponent x < 2 powi (e + 1)"
    by linarith
  then have "binary_exponent x < e + 1"
    by (rule powi_less_imp)
  moreover from assms(1) b(2) have "(2::real) powi e < 2 powi (binary_exponent x + 1)"
    by linarith
  then have "e < binary_exponent x + 1"
    by (rule powi_less_imp)
  ultimately show ?thesis
    by linarith
qed

lemma binary_exponent_log:
  assumes "0 < x"
  shows "binary_exponent x = \<lfloor>log 2 x\<rfloor>"
proof -
  define e where "e = binary_exponent x"
  note b = binary_exponent_bounds [OF assms, folded e_def]
  have p: "\<And>k. (2::real) powi k = 2 powr real_of_int k"
    by (simp add: powr_real_of_int')
  have "real_of_int e \<le> log 2 x"
    using b(1) assms by (simp add: le_log_iff p)
  moreover have "log 2 x < real_of_int (e + 1)"
    using b(2) assms by (simp add: log_less_iff p)
  ultimately have "\<lfloor>log 2 x\<rfloor> = e"
    by (intro floor_unique) simp_all
  then show ?thesis
    by (simp add: e_def)
qed

lemma ulp_pos: "0 < ulp x"
  by (simp add: ulp_def)

lemma ulp_eval:
  assumes "2 powi e \<le> \<bar>x\<bar>" and "\<bar>x\<bar> < 2 powi (e + 1)"
  shows "ulp x = 2 powi (max e (- 1022) - 52)"
  using binary_exponent_eqI [OF assms] by (simp add: ulp_def)

lemma round_half_even_of_int: "round_half_even (real_of_int m) = m"
  by (simp add: round_half_even_def)

lemma round64_zero: "round64 0 = Finite 0"
  by (simp add: round64_def round_half_even_def Let_def)

lemma round_half_even_nonneg: "0 \<le> q \<Longrightarrow> 0 \<le> round_half_even q"
  by (simp add: round_half_even_def Let_def)

lemma round_half_even_error: "\<bar>real_of_int (round_half_even q) - q\<bar> \<le> 1 / 2"
  by (simp add: round_half_even_def Let_def)

lemma round64_error:
  assumes "round64 x = Finite y"
  shows "\<bar>y - x\<bar> \<le> ulp x / 2"
proof -
  from assms have y: "y = real_of_int (round_half_even (x / ulp x)) * ulp x"
    by (simp add: round64_def Let_def split: if_splits)
  have "y - x = (real_of_int (round_half_even (x / ulp x)) - x / ulp x) * ulp x"
    using ulp_pos [of x] by (simp add: y field_simps)
  then have "\<bar>y - x\<bar> = \<bar>real_of_int (round_half_even (x / ulp x)) - x / ulp x\<bar> * ulp x"
    using ulp_pos [of x] by (simp add: abs_mult)
  also have "\<dots> \<le> 1 / 2 * ulp x"
    using round_half_even_error [of "x / ulp x"] ulp_pos [of x]
    by (intro mult_right_mono) simp_all
  finally show ?thesis
    by simp
qed

lemma round64_nonneg:
  assumes "0 \<le> x"
  shows "fl_less_eq (Finite 0) (round64 x)"
proof -
  define y where "y = real_of_int (round_half_even (x / ulp x)) * ulp x"
  from assms ulp_pos [of x] have "0 \<le> x / ulp x"
    by simp
  then have "0 \<le> round_half_even (x / ulp x)"
    by (rule round_half_even_nonneg)
  with ulp_pos [of x] have y: "0 \<le> y"
    by (simp add: y_def)
  have r: "round64 x = (if 2 ^ 1024 \<le> \<bar>y\<bar> then (if 0 < x then PosInf else NegInf) else Finite y)"
    by (simp add: round64_def Let_def y_def)
  show ?thesis
  proof (cases "2 ^ 1024 \<le> \<bar>y\<bar>")
    case False
    with y r show ?thesis by simp
  next
    case True
    then have "y \<noteq> 0"
      by auto
    then have "x \<noteq> 0"
      by (auto simp: y_def round_half_even_def)
    with assms True r show ?thesis by simp
  qed
qed

lemma is_doubleI:
  assumes "x = real_of_int m * ulp x" and "\<bar>x\<bar> < 2 ^ 1024"
  shows "is_double x"
proof -
  from assms(1) ulp_pos [of x] have "x / ulp x = real_of_int m"
    by (simp add: field_simps)
  then have "real_of_int (round_half_even (x / ulp x)) * ulp x = x"
    using assms(1) by (simp add: round_half_even_of_int)
  with assms(2) show ?thesis
    by (simp add: is_double_def round64_def Let_def)
qed

lemma is_doubleD:
  assumes "is_double x"
  shows "x = real_of_int (round_half_even (x / ulp x)) * ulp x" and "\<bar>x\<bar> < 2 ^ 1024"
  using assms by (auto simp: is_double_def round64_def Let_def split: if_splits)

lemma round64_examples:
  "round64 99999999999999999 = Finite 100000000000000000"
  "is_double 100000000000000000"
  "is_double 1"
  "is_double 4"
  "is_double 5"
  "is_double 10"
  "is_double 15"
  "round64 9007199254740993 = Finite 9007199254740992"
  "round64 9007199254740995 = Finite 9007199254740996"
  "round64 (1 / 10) = Finite (3602879701896397 / 36028797018963968)"
proof -
  show "round64 99999999999999999 = Finite 100000000000000000"
    by (simp add: round64_def ulp_eval [where e = 56] round_half_even_def Let_def)
  show "is_double 100000000000000000"
    by (simp add: is_double_def round64_def ulp_eval [where e = 56] round_half_even_def Let_def)
  show "is_double 1"
    by (simp add: is_double_def round64_def ulp_eval [where e = 0] round_half_even_def Let_def)
  show "is_double 4"
    by (simp add: is_double_def round64_def ulp_eval [where e = 2] round_half_even_def Let_def)
  show "is_double 5"
    by (simp add: is_double_def round64_def ulp_eval [where e = 2] round_half_even_def Let_def)
  show "is_double 10"
    by (simp add: is_double_def round64_def ulp_eval [where e = 3] round_half_even_def Let_def)
  show "is_double 15"
    by (simp add: is_double_def round64_def ulp_eval [where e = 3] round_half_even_def Let_def)
  show "round64 9007199254740993 = Finite 9007199254740992"
    by (simp add: round64_def ulp_eval [where e = 53] round_half_even_def Let_def)
  show "round64 9007199254740995 = Finite 9007199254740996"
    by (simp add: round64_def ulp_eval [where e = 53] round_half_even_def Let_def)
  show "round64 (1 / 10) = Finite (3602879701896397 / 36028797018963968)"
    by (simp add: round64_def ulp_eval [where e = "- 4"] round_half_even_def Let_def)
qed

lemma exponent_ge:
  assumes "2 powi k \<le> x"
  shows "k \<le> binary_exponent x"
proof -
  have "0 < (2::real) powi k"
    by simp
  with assms have "0 < x"
    by linarith
  from binary_exponent_bounds(2) [OF this] assms
  have "(2::real) powi k < 2 powi (binary_exponent x + 1)"
    by linarith
  then have "k < binary_exponent x + 1"
    by (rule powi_less_imp)
  then show ?thesis by simp
qed

lemma exponent_less:
  assumes "0 < x" and "x < 2 powi k"
  shows "binary_exponent x < k"
proof -
  from binary_exponent_bounds(1) [OF assms(1)] assms(2)
  have "(2::real) powi binary_exponent x < 2 powi k"
    by linarith
  then show ?thesis
    by (rule powi_less_imp)
qed

lemma double_minus_one_exact:
  assumes d: "is_double r" and lo: "1 \<le> r" and hi: "r \<le> 2 ^ 53"
  shows "is_double (r - 1)"
proof (cases "r = 1")
  case True
  then show ?thesis
    by (simp add: is_double_def round64_zero)
next
  case False
  with lo have x: "0 < r - 1"
    by simp
  define er where "er = binary_exponent r"
  define ex where "ex = binary_exponent (r - 1)"
  define i where "i = er - 52"
  define j where "j = max ex (- 1022) - 52"
  define n where "n = round_half_even (r / ulp r)"
  from lo have "2 powi 0 \<le> r"
    by simp
  then have er0: "0 \<le> er"
    unfolding er_def by (rule exponent_ge)
  from x have "r - 1 < 2 powi (er + 1)"
    using binary_exponent_bounds(2) [of r] lo by (simp add: er_def)
  with x have "ex < er + 1"
    unfolding ex_def by (rule exponent_less)
  moreover from hi have "r - 1 < 2 powi 53"
    by simp
  with x have "ex < 53"
    unfolding ex_def by (rule exponent_less)
  ultimately have j: "j \<le> 0" "j \<le> i"
    using er0 by (simp_all add: j_def i_def)
  have ur: "ulp r = 2 powi i"
    using lo er0 by (simp add: ulp_def er_def i_def)
  have ux: "ulp (r - 1) = 2 powi j"
    using x by (simp add: ulp_def ex_def j_def)
  from is_doubleD(1) [OF d] have r: "r = real_of_int n * 2 powi i"
    by (simp add: n_def ur)
  have "(2::real) powi i = 2 powi (i - j) * 2 powi j"
    by (simp flip: power_int_add)
  also have "(2::real) powi (i - j) = real_of_int (2 ^ nat (i - j))"
    using j by (simp add: powi_nat)
  finally have pi: "(2::real) powi i = real_of_int (2 ^ nat (i - j)) * 2 powi j" .
  have "(1::real) = 2 powi (- j) * 2 powi j"
    by (simp flip: power_int_add)
  also have "(2::real) powi (- j) = real_of_int (2 ^ nat (- j))"
    using j by (simp add: powi_nat)
  finally have one: "(1::real) = real_of_int (2 ^ nat (- j)) * 2 powi j" .
  have "r - 1 = real_of_int n * (real_of_int (2 ^ nat (i - j)) * 2 powi j)
      - real_of_int (2 ^ nat (- j)) * 2 powi j"
    using r pi one by simp
  also have "\<dots> = real_of_int (n * 2 ^ nat (i - j) - 2 ^ nat (- j)) * 2 powi j"
    by (simp add: algebra_simps)
  finally have eq: "r - 1 = real_of_int (n * 2 ^ nat (i - j) - 2 ^ nat (- j)) * 2 powi j" .
  have "r - 1 = real_of_int (n * 2 ^ nat (i - j) - 2 ^ nat (- j)) * ulp (r - 1)"
    by (subst ux) (rule eq)
  moreover have "(2::real) ^ 53 < 2 ^ 1024"
    by simp
  with x hi have "\<bar>r - 1\<bar> < 2 ^ 1024"
    by linarith
  ultimately show ?thesis
    by (rule is_doubleI)
qed

section \<open>Outcomes of the balance operations\<close>

text \<open>
  Each branch of the four balance operations over exact arithmetic, as an equation for
  the outcome. The later theorems on \<open>real\<close> are read off these.
\<close>

lemma raises_ValueError_simps:
  "raises_ValueError (Inl (ValueError m), s) = True"
  "raises_ValueError (Inl (KeyError k), s) = False"
  "raises_ValueError (Inr v, s) = False"
  by (simp_all add: raises_ValueError_def)

lemma deposit_rejected:
  "x \<le> 0 \<Longrightarrow> deposit a x = (Inl (ValueError msg_deposit_not_positive), a)"
  for a :: "real Account"
  by (simp add: deposit_def)

lemma deposit_accepted:
  "0 < x \<Longrightarrow> deposit a x = (Inr (), a\<lparr>Account.balance := Account.balance a + x\<rparr>)"
  for a :: "real Account"
  by (simp add: deposit_def)

lemma withdraw_not_positive:
  "x \<le> 0 \<Longrightarrow> withdraw a x = (Inl (ValueError msg_withdraw_not_positive), a)"
  for a :: "real Account"
  by (simp add: withdraw_def)

lemma withdraw_insufficient:
  "0 < x \<Longrightarrow> Account.balance a < x \<Longrightarrow>
     withdraw a x = (Inl (ValueError msg_insufficient_balance), a)"
  for a :: "real Account"
  by (simp add: withdraw_def)

lemma withdraw_accepted:
  "0 < x \<Longrightarrow> x \<le> Account.balance a \<Longrightarrow>
     withdraw a x = (Inr (), a\<lparr>Account.balance := Account.balance a - x\<rparr>)"
  for a :: "real Account"
  by (simp add: withdraw_def)

lemma add_balance_rejected:
  "x \<le> 0 \<Longrightarrow> add_balance u x = (Inl (ValueError msg_deposit_not_positive), u)"
  for u :: "real Lession1_User"
  by (simp add: add_balance_def)

lemma add_balance_accepted:
  "0 < x \<Longrightarrow>
     add_balance u x = (Inr (), u\<lparr>Lession1_User.balance := Lession1_User.balance u + x\<rparr>)"
  for u :: "real Lession1_User"
  by (simp add: add_balance_def)

lemma deduct_balance_insufficient:
  "Lession1_User.balance u < x \<Longrightarrow>
     deduct_balance u x = (Inl (ValueError msg_insufficient_balance), u)"
  for u :: "real Lession1_User"
  by (simp add: deduct_balance_def)

lemma deduct_balance_accepted:
  "x \<le> Lession1_User.balance u \<Longrightarrow>
     deduct_balance u x = (Inr (), u\<lparr>Lession1_User.balance := Lession1_User.balance u - x\<rparr>)"
  for u :: "real Lession1_User"
  by (simp add: deduct_balance_def)

section \<open>Insufficient balance\<close>

text \<open>
  C3. Withdraw fails when the balance is insufficient: for every account (or user of the
  Lession1 module) and every amount with \<open>balance < amount\<close>, \<open>withdraw\<close> (resp.
  \<open>deduct_balance\<close>) raises \<open>ValueError\<close> and the balance is unchanged; indeed the whole
  object is. For \<open>withdraw\<close> the error is the positivity one when the amount is not
  positive and the insufficiency one otherwise. Stated over exact arithmetic; the same
  holds on doubles (\<open>insufficient_balance_on_doubles\<close> below).
\<close>

theorem insufficient_balance_rejected:
  "(Account.balance a < x \<longrightarrow>
      raises_ValueError (withdraw a x) \<and> snd (withdraw a x) = a \<and>
      Account.balance (snd (withdraw a x)) = Account.balance a) \<and>
   (Lession1_User.balance u < y \<longrightarrow>
      raises_ValueError (deduct_balance u y) \<and> snd (deduct_balance u y) = u \<and>
      Lession1_User.balance (snd (deduct_balance u y)) = Lession1_User.balance u)"
  for a :: "real Account" and u :: "real Lession1_User"
proof (intro conjI impI)
  assume low: "Account.balance a < x"
  show "raises_ValueError (withdraw a x)"
  proof (cases "x \<le> 0")
    case True
    then show ?thesis by (simp add: withdraw_not_positive raises_ValueError_simps)
  next
    case False
    with low show ?thesis by (simp add: withdraw_insufficient raises_ValueError_simps)
  qed
  from low show "snd (withdraw a x) = a"
    by (simp add: withdraw_def)
  then show "Account.balance (snd (withdraw a x)) = Account.balance a"
    by simp
next
  assume low: "Lession1_User.balance u < y"
  then show "raises_ValueError (deduct_balance u y)"
    by (simp add: deduct_balance_insufficient raises_ValueError_simps)
  from low show "snd (deduct_balance u y) = u"
    by (simp add: deduct_balance_insufficient)
  then show "Lession1_User.balance (snd (deduct_balance u y)) = Lession1_User.balance u"
    by simp
qed

theorem insufficient_balance_rejected_witness:
  "Account.balance (Account_init 1 (10::real) 0) < 25 \<and>
   raises_ValueError (withdraw (Account_init 1 (10::real) 0) 25) \<and>
   snd (withdraw (Account_init 1 (10::real) 0) 25) = Account_init 1 10 0 \<and>
   Lession1_User.balance ((Lession1_User_init_default 2 ''ann'' ''pw'' :: real Lession1_User)) < 1 \<and>
   raises_ValueError (deduct_balance ((Lession1_User_init_default 2 ''ann'' ''pw'' :: real Lession1_User)) 1) \<and>
   snd (deduct_balance ((Lession1_User_init_default 2 ''ann'' ''pw'' :: real Lession1_User)) 1) =
     Lession1_User_init_default 2 ''ann'' ''pw''"
proof -
  have h1: "Account.balance (Account_init 1 (10::real) 0) < 25"
    by (simp add: Account_init_def)
  have h2: "Lession1_User.balance ((Lession1_User_init_default 2 ''ann'' ''pw'' :: real Lession1_User)) < 1"
    by (simp add: Lession1_User_init_default_def Lession1_User_init_def)
  from h1 h2
    insufficient_balance_rejected
      [of "Account_init 1 10 0" 25 "Lession1_User_init_default 2 ''ann'' ''pw''" 1]
  show ?thesis by blast
qed

lemma insufficient_balance_on_doubles:
  fixes a :: "pyfloat Account" and u :: "pyfloat Lession1_User"
  shows "Account.balance a < x \<Longrightarrow> raises_ValueError (withdraw a x) \<and> snd (withdraw a x) = a"
    and "Lession1_User.balance u < y \<Longrightarrow>
      raises_ValueError (deduct_balance u y) \<and> snd (deduct_balance u y) = u"
proof -
  show "Account.balance a < x \<Longrightarrow> raises_ValueError (withdraw a x) \<and> snd (withdraw a x) = a"
    by (simp add: withdraw_def raises_ValueError_simps)
  assume "Lession1_User.balance u < y"
  then have "\<not> y \<le> Lession1_User.balance u"
    by (cases "Lession1_User.balance u"; cases y) (simp_all add: pyfloat_ord_simps)
  then show "raises_ValueError (deduct_balance u y) \<and> snd (deduct_balance u y) = u"
    by (simp add: deduct_balance_def raises_ValueError_simps)
qed

section \<open>Frame of deposit and withdraw\<close>

text \<open>
  C8. Deposit and withdraw touch only the balance: for every Account and every amount,
  \<open>deposit\<close> and \<open>withdraw\<close> leave \<open>user_id\<close> and \<open>created_at\<close> unchanged, whether they
  return or raise. The account they leave is the one they were given with, at most, a new
  balance. This holds for every kind of number.
\<close>

theorem deposit_withdraw_frame:
  "Account.user_id (snd (deposit a x)) = Account.user_id a \<and>
   Account.created_at (snd (deposit a x)) = Account.created_at a \<and>
   Account.user_id (snd (withdraw a x)) = Account.user_id a \<and>
   Account.created_at (snd (withdraw a x)) = Account.created_at a \<and>
   snd (deposit a x) = a\<lparr>Account.balance := Account.balance (snd (deposit a x))\<rparr> \<and>
   snd (withdraw a x) = a\<lparr>Account.balance := Account.balance (snd (withdraw a x))\<rparr>"
  by (simp add: deposit_def withdraw_def)

section \<open>Deposit, then withdraw\<close>

text \<open>
  C9. Deposit then withdraw is a round trip: for every Account with balance \<open>b \<ge> 0\<close> and
  every amount \<open>a > 0\<close>, \<open>deposit(a)\<close> followed by \<open>withdraw(a)\<close> raises no error and leaves
  the balance, and with it the whole account, as it was. Over exact arithmetic.
\<close>

theorem deposit_then_withdraw_roundtrip:
  fixes a :: "real Account"
  assumes "0 \<le> Account.balance a" and "0 < x"
  shows "fst (deposit a x) = Inr () \<and> withdraw (snd (deposit a x)) x = (Inr (), a)"
proof -
  let ?a' = "a\<lparr>Account.balance := Account.balance a + x\<rparr>"
  from assms(2) have dep: "deposit a x = (Inr (), ?a')"
    by (rule deposit_accepted)
  from assms have "x \<le> Account.balance ?a'"
    by simp
  with assms(2) have "withdraw ?a' x = (Inr (), ?a'\<lparr>Account.balance := Account.balance ?a' - x\<rparr>)"
    by (rule withdraw_accepted)
  also have "?a'\<lparr>Account.balance := Account.balance ?a' - x\<rparr> = a"
    by simp
  finally show ?thesis
    using dep by simp
qed

theorem deposit_then_withdraw_roundtrip_witness:
  "0 \<le> Account.balance (Account_init 1 (10::real) 0) \<and> (0::real) < 3 \<and>
   fst (deposit (Account_init 1 (10::real) 0) 3) = Inr () \<and>
   withdraw (snd (deposit (Account_init 1 (10::real) 0) 3)) 3 = (Inr (), Account_init 1 10 0)"
proof -
  have h1: "0 \<le> Account.balance (Account_init 1 (10::real) 0)"
    by (simp add: Account_init_def)
  have h2: "(0::real) < 3"
    by simp
  from h1 h2 deposit_then_withdraw_roundtrip [OF h1 h2] show ?thesis
    by simp
qed

section \<open>Non-negative balances\<close>

text \<open>
  C1 does not hold at construction. Neither constructor checks the balance it is given:
  \<open>Account(1, -5.0)\<close> and \<open>User(1, "ann", "pw", -5.0)\<close> start with a negative balance, over
  exact arithmetic and on doubles alike.
\<close>

theorem negative_initial_balance_accepted:
  "\<not> 0 \<le> Account.balance (Account_init 1 (- 5 :: real) 0) \<and>
   \<not> 0 \<le> Lession1_User.balance (Lession1_User_init 1 ''ann'' ''pw'' (- 5 :: real) ''user'') \<and>
   \<not> 0 \<le> Account.balance (Account_init 1 (Finite (- 5)) 0) \<and>
   \<not> 0 \<le> Lession1_User.balance (Lession1_User_init 1 ''ann'' ''pw'' (Finite (- 5)) ''user'')"
  by (simp add: Account_init_def Lession1_User_init_def pyfloat_ord_simps)

text \<open>
  On doubles the operations keep a non-negative balance non-negative: rounding a
  non-negative sum or difference gives a non-negative double or \<open>+inf\<close>. Two inputs are
  excepted. A NaN amount passes \<open>amount <= 0\<close> and \<open>balance < amount\<close>, which are false on
  NaN, so \<open>deposit\<close> and \<open>withdraw\<close> store NaN; \<open>add_balance\<close> and \<open>deduct_balance\<close> test
  \<open>amount > 0\<close> and \<open>balance >= amount\<close>, which NaN fails, and raise. And taking \<open>+inf\<close> from a
  balance \<open>+inf\<close> passes every test and leaves \<open>inf - inf\<close>, which is NaN.
\<close>

lemma deposit_double_nonneg:
  fixes a :: "pyfloat Account"
  assumes "x \<noteq> NaN" and "0 \<le> Account.balance a"
  shows "0 \<le> Account.balance (snd (deposit a x))"
  using assms
  by (cases "Account.balance a"; cases x)
     (auto simp: deposit_def pyfloat_ord_simps intro!: round64_nonneg)

lemma withdraw_double_nonneg:
  fixes a :: "pyfloat Account"
  assumes "x \<noteq> NaN" and "\<not> (Account.balance a = PosInf \<and> x = PosInf)"
    and "0 \<le> Account.balance a"
  shows "0 \<le> Account.balance (snd (withdraw a x))"
  using assms
  by (cases "Account.balance a"; cases x)
     (auto simp: withdraw_def pyfloat_ord_simps intro!: round64_nonneg)

lemma add_balance_double_nonneg:
  fixes u :: "pyfloat Lession1_User"
  assumes "0 \<le> Lession1_User.balance u"
  shows "0 \<le> Lession1_User.balance (snd (add_balance u x))"
  using assms
  by (cases "Lession1_User.balance u"; cases x)
     (auto simp: add_balance_def pyfloat_ord_simps intro!: round64_nonneg)

lemma deduct_balance_double_nonneg:
  fixes u :: "pyfloat Lession1_User"
  assumes "\<not> (Lession1_User.balance u = PosInf \<and> x = PosInf)"
    and "0 \<le> Lession1_User.balance u"
  shows "0 \<le> Lession1_User.balance (snd (deduct_balance u x))"
  using assms
  by (cases "Lession1_User.balance u"; cases x)
     (auto simp: deduct_balance_def pyfloat_ord_simps intro!: round64_nonneg)

lemma NaN_amount_on_doubles:
  fixes a :: "pyfloat Account" and u :: "pyfloat Lession1_User"
  shows "deposit a NaN = (Inr (), a\<lparr>Account.balance := NaN\<rparr>)"
    and "withdraw a NaN = (Inr (), a\<lparr>Account.balance := NaN\<rparr>)"
    and "add_balance u NaN = (Inl (ValueError msg_deposit_not_positive), u)"
    and "deduct_balance u NaN = (Inl (ValueError msg_insufficient_balance), u)"
    and "\<not> (0::pyfloat) \<le> NaN"
  by (cases "Account.balance a"; cases "Lession1_User.balance u";
      simp add: deposit_def withdraw_def add_balance_def deduct_balance_def pyfloat_ord_simps)+

lemma inf_minus_inf_on_doubles:
  "withdraw (Account_init 1 PosInf 0) PosInf = (Inr (), Account_init 1 NaN 0)"
  "deduct_balance (Lession1_User_init 1 ''ann'' ''pw'' PosInf ''user'') PosInf =
     (Inr (), Lession1_User_init 1 ''ann'' ''pw'' NaN ''user'')"
  by (simp_all add: withdraw_def deduct_balance_def Account_init_def Lession1_User_init_def
      pyfloat_ord_simps)

text \<open>
  C1, as the code has it. Immediately after construction the balance is the initial
  balance that was passed (\<open>0.0\<close> when none is), so it is non-negative whenever that
  argument is. Each of \<open>deposit\<close>, \<open>withdraw\<close>, \<open>add_balance\<close> and \<open>deduct_balance\<close> maps a
  state with a non-negative balance to a state with a non-negative balance, whether it
  returns or raises: over exact arithmetic for every amount, and on doubles for every
  amount that is not NaN (\<open>deposit\<close>, \<open>withdraw\<close>) and not \<open>+inf\<close> against a balance \<open>+inf\<close>
  (\<open>withdraw\<close>, \<open>deduct_balance\<close>).
\<close>

theorem balance_stays_nonnegative:
  fixes ib :: "'n::zero"
    and a :: "real Account" and u :: "real Lession1_User"
    and af :: "pyfloat Account" and uf :: "pyfloat Lession1_User"
  shows
  "Account.balance (Account_init uid ib now) = ib \<and>
   Account.balance (Account_init_default uid now) = (0::'n) \<and>
   Lession1_User.balance (Lession1_User_init uid name pw ib r) = ib \<and>
   Lession1_User.balance (Lession1_User_init_default uid name pw) = (0::'n) \<and>
   Lession1_User.balance (Lession1_Admin_init uid name pw) = (0::'n) \<and>
   (0 \<le> Account.balance a \<longrightarrow> 0 \<le> Account.balance (snd (deposit a x))) \<and>
   (0 \<le> Account.balance a \<longrightarrow> 0 \<le> Account.balance (snd (withdraw a x))) \<and>
   (0 \<le> Lession1_User.balance u \<longrightarrow> 0 \<le> Lession1_User.balance (snd (add_balance u x))) \<and>
   (0 \<le> Lession1_User.balance u \<longrightarrow> 0 \<le> Lession1_User.balance (snd (deduct_balance u x))) \<and>
   (xf \<noteq> NaN \<and> 0 \<le> Account.balance af \<longrightarrow> 0 \<le> Account.balance (snd (deposit af xf))) \<and>
   (xf \<noteq> NaN \<and> \<not> (Account.balance af = PosInf \<and> xf = PosInf) \<and> 0 \<le> Account.balance af \<longrightarrow>
      0 \<le> Account.balance (snd (withdraw af xf))) \<and>
   (0 \<le> Lession1_User.balance uf \<longrightarrow> 0 \<le> Lession1_User.balance (snd (add_balance uf xf))) \<and>
   (\<not> (Lession1_User.balance uf = PosInf \<and> xf = PosInf) \<and> 0 \<le> Lession1_User.balance uf \<longrightarrow>
      0 \<le> Lession1_User.balance (snd (deduct_balance uf xf)))"
proof (intro conjI impI)
  show "Account.balance (Account_init uid ib now) = ib"
    by (simp add: Account_init_def)
  show "Account.balance (Account_init_default uid now) = 0"
    by (simp add: Account_init_default_def Account_init_def)
  show "Lession1_User.balance (Lession1_User_init uid name pw ib r) = ib"
    by (simp add: Lession1_User_init_def)
  show "Lession1_User.balance (Lession1_User_init_default uid name pw) = 0"
    by (simp add: Lession1_User_init_default_def Lession1_User_init_def)
  show "Lession1_User.balance (Lession1_Admin_init uid name pw) = 0"
    by (simp add: Lession1_Admin_init_def Lession1_User_init_def)
next
  assume nonneg: "0 \<le> Account.balance a"
  show "0 \<le> Account.balance (snd (deposit a x))"
  proof (cases "x \<le> 0")
    case True
    with nonneg show ?thesis by (simp add: deposit_rejected)
  next
    case False
    with nonneg show ?thesis by (simp add: deposit_accepted)
  qed
next
  assume nonneg: "0 \<le> Account.balance a"
  consider "x \<le> 0" | "0 < x" "Account.balance a < x" | "0 < x" "x \<le> Account.balance a"
    by linarith
  then show "0 \<le> Account.balance (snd (withdraw a x))"
  proof cases
    case 1
    with nonneg show ?thesis by (simp add: withdraw_not_positive)
  next
    case 2
    with nonneg show ?thesis by (simp add: withdraw_insufficient)
  next
    case 3
    then show ?thesis by (simp add: withdraw_accepted)
  qed
next
  assume nonneg: "0 \<le> Lession1_User.balance u"
  show "0 \<le> Lession1_User.balance (snd (add_balance u x))"
  proof (cases "x \<le> 0")
    case True
    with nonneg show ?thesis by (simp add: add_balance_rejected)
  next
    case False
    with nonneg show ?thesis by (simp add: add_balance_accepted)
  qed
next
  assume nonneg: "0 \<le> Lession1_User.balance u"
  show "0 \<le> Lession1_User.balance (snd (deduct_balance u x))"
  proof (cases "x \<le> Lession1_User.balance u")
    case True
    then show ?thesis by (simp add: deduct_balance_accepted)
  next
    case False
    with nonneg show ?thesis by (simp add: deduct_balance_insufficient)
  qed
next
  assume "xf \<noteq> NaN \<and> 0 \<le> Account.balance af"
  then show "0 \<le> Account.balance (snd (deposit af xf))"
    by (simp add: deposit_double_nonneg)
next
  assume "xf \<noteq> NaN \<and> \<not> (Account.balance af = PosInf \<and> xf = PosInf) \<and> 0 \<le> Account.balance af"
  then show "0 \<le> Account.balance (snd (withdraw af xf))"
    by (intro withdraw_double_nonneg) simp_all
next
  assume "0 \<le> Lession1_User.balance uf"
  then show "0 \<le> Lession1_User.balance (snd (add_balance uf xf))"
    by (rule add_balance_double_nonneg)
next
  assume "\<not> (Lession1_User.balance uf = PosInf \<and> xf = PosInf) \<and> 0 \<le> Lession1_User.balance uf"
  then show "0 \<le> Lession1_User.balance (snd (deduct_balance uf xf))"
    by (intro deduct_balance_double_nonneg) simp_all
qed

theorem balance_stays_nonnegative_witness:
  "0 \<le> Account.balance (Account_init 1 (10::real) 0) \<and>
   0 \<le> Account.balance (snd (deposit (Account_init 1 (10::real) 0) 4)) \<and>
   0 \<le> Account.balance (snd (withdraw (Account_init 1 (10::real) 0) 4)) \<and>
   0 \<le> Lession1_User.balance (Lession1_User_init 2 ''ann'' ''pw'' (10::real) ''user'') \<and>
   0 \<le> Lession1_User.balance
         (snd (add_balance (Lession1_User_init 2 ''ann'' ''pw'' (10::real) ''user'') 4)) \<and>
   0 \<le> Lession1_User.balance
         (snd (deduct_balance (Lession1_User_init 2 ''ann'' ''pw'' (10::real) ''user'') 4)) \<and>
   Finite 4 \<noteq> NaN \<and>
   \<not> (Account.balance (Account_init 1 (Finite 10) 0) = PosInf \<and> Finite 4 = PosInf) \<and>
   \<not> (Lession1_User.balance (Lession1_User_init 2 ''ann'' ''pw'' (Finite 10) ''user'') = PosInf
       \<and> Finite 4 = PosInf) \<and>
   0 \<le> Account.balance (Account_init 1 (Finite 10) 0) \<and>
   0 \<le> Account.balance (snd (deposit (Account_init 1 (Finite 10) 0) (Finite 4))) \<and>
   0 \<le> Account.balance (snd (withdraw (Account_init 1 (Finite 10) 0) (Finite 4))) \<and>
   0 \<le> Lession1_User.balance (Lession1_User_init 2 ''ann'' ''pw'' (Finite 10) ''user'') \<and>
   0 \<le> Lession1_User.balance
         (snd (add_balance (Lession1_User_init 2 ''ann'' ''pw'' (Finite 10) ''user'') (Finite 4))) \<and>
   0 \<le> Lession1_User.balance
         (snd (deduct_balance (Lession1_User_init 2 ''ann'' ''pw'' (Finite 10) ''user'')
            (Finite 4)))"
proof -
  have h1: "0 \<le> Account.balance (Account_init 1 (10::real) 0)"
    by (simp add: Account_init_def)
  have h2: "0 \<le> Lession1_User.balance (Lession1_User_init 2 ''ann'' ''pw'' (10::real) ''user'')"
    by (simp add: Lession1_User_init_def)
  have h3: "Finite 4 \<noteq> NaN"
    by simp
  have h4: "\<not> (Account.balance (Account_init 1 (Finite 10) 0) = PosInf \<and> Finite 4 = PosInf)"
    by simp
  have h5: "\<not> (Lession1_User.balance (Lession1_User_init 2 ''ann'' ''pw'' (Finite 10) ''user'')
      = PosInf \<and> Finite 4 = PosInf)"
    by simp
  have h6: "0 \<le> Account.balance (Account_init 1 (Finite 10) 0)"
    by (simp add: Account_init_def pyfloat_ord_simps)
  have h7: "0 \<le> Lession1_User.balance (Lession1_User_init 2 ''ann'' ''pw'' (Finite 10) ''user'')"
    by (simp add: Lession1_User_init_def pyfloat_ord_simps)
  from h1 h2 h3 h4 h5 h6 h7
    balance_stays_nonnegative
      [where uid = 1 and ib = "10::real" and now = 0 and name = "''ann''" and pw = "''pw''"
         and r = "''user''" and a = "Account_init 1 10 0" and x = 4
         and u = "Lession1_User_init 2 ''ann'' ''pw'' 10 ''user''"
         and af = "Account_init 1 (Finite 10) 0" and xf = "Finite 4"
         and uf = "Lession1_User_init 2 ''ann'' ''pw'' (Finite 10) ''user''"]
  show ?thesis by simp
qed

text \<open>
  The remaining paths to a balance go through the four operations: over exact
  arithmetic \<open>MLTask.execute\<close> of either module and \<open>Admin.add_user_balance\<close> keep a
  non-negative balance non-negative too.
\<close>

lemma other_balance_paths_nonnegative:
  fixes t :: "real MLTask" and s :: "real Lession1_MLTask" and u :: "real Lession1_User"
  shows "0 \<le> Account.balance (MLTask.account t) \<Longrightarrow>
     0 \<le> Account.balance (MLTask.account (snd (execute t)))"
    and "0 \<le> Lession1_User.balance (Lession1_MLTask.user s) \<Longrightarrow>
     0 \<le> Lession1_User.balance (Lession1_MLTask.user (snd (Lession1_execute s)))"
    and "0 \<le> Lession1_User.balance u \<Longrightarrow>
     0 \<le> Lession1_User.balance (snd (add_user_balance adm u x))"
  by (simp_all add: execute_def withdraw_def TASK_COST_def Lession1_execute_def
      deduct_balance_def add_user_balance_def add_balance_def)

section \<open>Amounts that are not positive\<close>

text \<open>
  \<open>deposit\<close>, \<open>withdraw\<close> and \<open>add_balance\<close> test the sign of the amount first: called
  with \<open>amount \<le> 0\<close> they raise \<open>ValueError\<close> and leave the object as it was.
  \<open>deduct_balance\<close> has no such test. Its only test is \<open>balance \<ge> amount\<close>, which an
  amount \<open>\<le> 0\<close> passes on every non-negative balance, and the subtraction then adds to
  the balance.
\<close>

lemma nonpositive_amount_rejected:
  fixes a :: "real Account" and u :: "real Lession1_User"
  assumes "x \<le> 0"
  shows "raises_ValueError (deposit a x) \<and> snd (deposit a x) = a"
    and "raises_ValueError (withdraw a x) \<and> snd (withdraw a x) = a"
    and "raises_ValueError (add_balance u x) \<and> snd (add_balance u x) = u"
  using assms
  by (simp_all add: deposit_rejected withdraw_not_positive add_balance_rejected
      raises_ValueError_simps)

lemma deduct_balance_nonpositive_amount:
  fixes u :: "real Lession1_User"
  assumes "x \<le> 0" and "0 \<le> Lession1_User.balance u"
  shows "deduct_balance u x = (Inr (), u\<lparr>Lession1_User.balance := Lession1_User.balance u - x\<rparr>)"
  using assms by (simp add: deduct_balance_accepted)

text \<open>The same on doubles, where \<open>10.0\<close>, \<open>-5.0\<close> and \<open>15.0\<close> are exact.\<close>

lemma deduct_balance_negative_on_doubles:
  "deduct_balance (Lession1_User_init 1 ''ann'' ''pw'' (Finite 10) ''user'') (Finite (- 5)) =
     (Inr (), Lession1_User_init 1 ''ann'' ''pw'' (Finite 15) ''user'')"
  using round64_examples(7)
  by (simp add: deduct_balance_def Lession1_User_init_def pyfloat_ord_simps is_double_def)

text \<open>
  C2 asks that \<open>deduct_balance\<close>, like the other three, raises \<open>ValueError\<close> on an amount
  \<open>\<le> 0\<close> and leaves the balance unchanged. On the code, \<open>deduct_balance(-5.0)\<close> on a user
  with balance \<open>10.0\<close> returns normally with balance \<open>15.0\<close>.
\<close>

theorem deduct_balance_accepts_negative_amount:
  "deduct_balance (Lession1_User_init 1 ''ann'' ''pw'' (10::real) ''user'') (-5) =
     (Inr (), Lession1_User_init 1 ''ann'' ''pw'' 15 ''user'')"
  by (simp add: deduct_balance_def Lession1_User_init_def)

section \<open>MLTask.execute\<close>

text \<open>
  Over exact arithmetic the charge is exactly the task cost. On doubles the new balance
  is the double nearest to \<open>balance - 1.0\<close>, and at \<open>1e17\<close>, where neighbouring doubles
  are \<open>16\<close> apart, that is the old balance: the task runs and nothing is paid.
\<close>

lemma double_minus_one:
  "Finite r - 1 = round64 (r - 1)"
  "PosInf - 1 = PosInf"
  "is_double (r - 1) \<Longrightarrow> Finite r - 1 = Finite (r - 1)"
  by (simp_all add: pyfloat_ord_simps is_double_def)

lemma double_at_least_one:
  fixes b :: pyfloat
  assumes "1 \<le> b"
  shows "\<not> b < 1"
  using assms by (cases b) (simp_all add: pyfloat_ord_simps)

lemma double_below_one:
  fixes b :: pyfloat
  assumes "b < 1"
  shows "\<not> 1 \<le> b"
  using assms by (cases b) (simp_all add: pyfloat_ord_simps)

lemma execute_on_doubles:
  fixes t :: "pyfloat MLTask"
  shows "1 \<le> Account.balance (MLTask.account t) \<Longrightarrow>
      execute t =
        (MLTask.model t (MLTask.data t),
         t\<lparr>MLTask.account :=
             (MLTask.account t)\<lparr>Account.balance := Account.balance (MLTask.account t) - 1\<rparr>\<rparr>)"
    and "Account.balance (MLTask.account t) < 1 \<Longrightarrow>
      execute t = (Inl (ValueError msg_insufficient_for_task), t)"
proof -
  assume "1 \<le> Account.balance (MLTask.account t)"
  then have "\<not> Account.balance (MLTask.account t) < 1"
    by (rule double_at_least_one)
  moreover have "\<not> (1::pyfloat) \<le> 0"
    by (simp add: pyfloat_ord_simps)
  ultimately show "execute t =
        (MLTask.model t (MLTask.data t),
         t\<lparr>MLTask.account :=
             (MLTask.account t)\<lparr>Account.balance := Account.balance (MLTask.account t) - 1\<rparr>\<rparr>)"
    by (simp add: execute_def withdraw_def TASK_COST_def)
next
  assume "Account.balance (MLTask.account t) < 1"
  then show "execute t = (Inl (ValueError msg_insufficient_for_task), t)"
    by (simp add: execute_def TASK_COST_def)
qed

lemma Lession1_execute_on_doubles:
  fixes s :: "pyfloat Lession1_MLTask"
  shows "1 \<le> Lession1_User.balance (Lession1_MLTask.user s) \<Longrightarrow>
      Lession1_execute s =
        (Lession1_MLTask.model s (Lession1_MLTask.data s),
         s\<lparr>Lession1_MLTask.user :=
             (Lession1_MLTask.user s)
               \<lparr>Lession1_User.balance := Lession1_User.balance (Lession1_MLTask.user s) - 1\<rparr>\<rparr>)"
    and "Lession1_User.balance (Lession1_MLTask.user s) < 1 \<Longrightarrow>
      Lession1_execute s = (Inl (ValueError msg_insufficient_balance), s)"
proof -
  show "1 \<le> Lession1_User.balance (Lession1_MLTask.user s) \<Longrightarrow>
      Lession1_execute s =
        (Lession1_MLTask.model s (Lession1_MLTask.data s),
         s\<lparr>Lession1_MLTask.user :=
             (Lession1_MLTask.user s)
               \<lparr>Lession1_User.balance := Lession1_User.balance (Lession1_MLTask.user s) - 1\<rparr>\<rparr>)"
    by (simp add: Lession1_execute_def deduct_balance_def)
  assume "Lession1_User.balance (Lession1_MLTask.user s) < 1"
  then have "\<not> 1 \<le> Lession1_User.balance (Lession1_MLTask.user s)"
    by (rule double_below_one)
  then show "Lession1_execute s = (Inl (ValueError msg_insufficient_balance), s)"
    by (simp add: Lession1_execute_def)
qed

text \<open>
  C4 does not hold on doubles. \<open>1e17\<close> is a double and at least \<open>1.0\<close>; \<open>execute\<close> on a
  task whose payer holds \<open>1e17\<close> returns the prediction and leaves the balance at
  \<open>1e17\<close>, not at \<open>1e17 - 1\<close>. The same in the Lession1 module.
\<close>

theorem execute_charge_lost_to_rounding:
  "(let usr = \<lparr>User.user_id = 1, username = ''ann'', hashed_password = ''hash'', role = USER,
               created_at = 0\<rparr>;
        t = MLTask_init 7 usr (Account_init 1 (Finite (10 ^ 17)) 0) [[]] ExampleMLModel
    in is_double (10 ^ 17) \<and>
       1 \<le> Account.balance (MLTask.account t) \<and>
       fst (execute t) = Inr (ExampleMLModel_predict [[]]) \<and>
       Account.balance (MLTask.account (snd (execute t))) = Finite (10 ^ 17) \<and>
       Account.balance (MLTask.account (snd (execute t))) \<noteq> Finite (10 ^ 17 - 1)) \<and>
   (let s = Lession1_MLTask_init 7 (Lession1_User_init 1 ''ann'' ''pw'' (Finite (10 ^ 17)) ''user'')
              [[]] Lession1_ExampleMLModel
    in 1 \<le> Lession1_User.balance (Lession1_MLTask.user s) \<and>
       fst (Lession1_execute s) = Inr (Lession1_ExampleMLModel_predict [[]]) \<and>
       Lession1_User.balance (Lession1_MLTask.user (snd (Lession1_execute s))) =
         Finite (10 ^ 17) \<and>
       Lession1_User.balance (Lession1_MLTask.user (snd (Lession1_execute s))) \<noteq>
         Finite (10 ^ 17 - 1))"
  using round64_examples(1,2)
  by (simp add: Let_def execute_def withdraw_def TASK_COST_def MLTask_init_def Account_init_def
      Lession1_execute_def deduct_balance_def Lession1_MLTask_init_def Lession1_User_init_def
      ExampleMLModel_def Lession1_ExampleMLModel_def pyfloat_ord_simps is_double_def)

text \<open>
  C4, as the code has it. \<open>MLTask.execute\<close> of either module either charges the task cost
  of \<open>1.0\<close> in the arithmetic of the balance or changes nothing. If the payer's balance
  is at least \<open>1.0\<close>, \<open>execute\<close> returns what \<open>model.predict(data)\<close> returns (or raises what
  it raises) and the only change is that the balance becomes \<open>balance - 1.0\<close>: over exact
  arithmetic that is lower by exactly \<open>1.0\<close>; on doubles it is the double nearest to the
  exact difference (\<open>+inf\<close> stays \<open>+inf\<close>), which is lower by exactly \<open>1.0\<close> whenever the
  exact difference is a double, as it is for every double balance from \<open>1.0\<close> to
  \<open>2 ^ 53\<close>. If the balance is below \<open>1.0\<close>, \<open>execute\<close> raises \<open>ValueError\<close> and the task,
  with its payer's balance, is unchanged.
\<close>

theorem execute_charges_or_fails:
  fixes t :: "real MLTask" and s :: "real Lession1_MLTask"
    and tf :: "pyfloat MLTask" and sf :: "pyfloat Lession1_MLTask"
  shows
  "(TASK_COST :: real) = 1 \<and> (TASK_COST :: pyfloat) = 1 \<and>
   (1 \<le> Account.balance (MLTask.account t) \<longrightarrow>
      execute t =
        (MLTask.model t (MLTask.data t),
         t\<lparr>MLTask.account :=
             (MLTask.account t)\<lparr>Account.balance := Account.balance (MLTask.account t) - 1\<rparr>\<rparr>)) \<and>
   (Account.balance (MLTask.account t) < 1 \<longrightarrow>
      raises_ValueError (execute t) \<and> snd (execute t) = t) \<and>
   (1 \<le> Lession1_User.balance (Lession1_MLTask.user s) \<longrightarrow>
      Lession1_execute s =
        (Lession1_MLTask.model s (Lession1_MLTask.data s),
         s\<lparr>Lession1_MLTask.user :=
             (Lession1_MLTask.user s)
               \<lparr>Lession1_User.balance := Lession1_User.balance (Lession1_MLTask.user s) - 1\<rparr>\<rparr>)) \<and>
   (Lession1_User.balance (Lession1_MLTask.user s) < 1 \<longrightarrow>
      raises_ValueError (Lession1_execute s) \<and> snd (Lession1_execute s) = s) \<and>
   (1 \<le> Account.balance (MLTask.account tf) \<longrightarrow>
      execute tf =
        (MLTask.model tf (MLTask.data tf),
         tf\<lparr>MLTask.account :=
             (MLTask.account tf)\<lparr>Account.balance := Account.balance (MLTask.account tf) - 1\<rparr>\<rparr>)) \<and>
   (Account.balance (MLTask.account tf) < 1 \<longrightarrow>
      raises_ValueError (execute tf) \<and> snd (execute tf) = tf) \<and>
   (1 \<le> Lession1_User.balance (Lession1_MLTask.user sf) \<longrightarrow>
      Lession1_execute sf =
        (Lession1_MLTask.model sf (Lession1_MLTask.data sf),
         sf\<lparr>Lession1_MLTask.user :=
             (Lession1_MLTask.user sf)
               \<lparr>Lession1_User.balance := Lession1_User.balance (Lession1_MLTask.user sf) - 1\<rparr>\<rparr>)) \<and>
   (Lession1_User.balance (Lession1_MLTask.user sf) < 1 \<longrightarrow>
      raises_ValueError (Lession1_execute sf) \<and> snd (Lession1_execute sf) = sf) \<and>
   Finite r - 1 = round64 (r - 1) \<and> PosInf - 1 = PosInf \<and>
   (is_double (r - 1) \<longrightarrow> Finite r - 1 = Finite (r - 1)) \<and>
   (is_double r \<and> 1 \<le> r \<and> r \<le> 2 ^ 53 \<longrightarrow> Finite r - 1 = Finite (r - 1))"
proof (intro conjI impI)
  show "(TASK_COST :: real) = 1" and "(TASK_COST :: pyfloat) = 1"
    by (simp_all add: TASK_COST_def)
next
  assume enough: "1 \<le> Account.balance (MLTask.account t)"
  then have "withdraw (MLTask.account t) TASK_COST =
      (Inr (), (MLTask.account t)\<lparr>Account.balance := Account.balance (MLTask.account t) - 1\<rparr>)"
    by (simp add: TASK_COST_def withdraw_accepted)
  with enough show "execute t =
        (MLTask.model t (MLTask.data t),
         t\<lparr>MLTask.account :=
             (MLTask.account t)\<lparr>Account.balance := Account.balance (MLTask.account t) - 1\<rparr>\<rparr>)"
    by (simp add: execute_def TASK_COST_def)
next
  assume short: "Account.balance (MLTask.account t) < 1"
  then have "execute t = (Inl (ValueError msg_insufficient_for_task), t)"
    by (simp add: execute_def TASK_COST_def)
  then show "raises_ValueError (execute t)" and "snd (execute t) = t"
    by (simp_all add: raises_ValueError_simps)
next
  assume enough: "1 \<le> Lession1_User.balance (Lession1_MLTask.user s)"
  then have "deduct_balance (Lession1_MLTask.user s) 1 =
      (Inr (), (Lession1_MLTask.user s)
         \<lparr>Lession1_User.balance := Lession1_User.balance (Lession1_MLTask.user s) - 1\<rparr>)"
    by (rule deduct_balance_accepted)
  with enough show "Lession1_execute s =
        (Lession1_MLTask.model s (Lession1_MLTask.data s),
         s\<lparr>Lession1_MLTask.user :=
             (Lession1_MLTask.user s)
               \<lparr>Lession1_User.balance := Lession1_User.balance (Lession1_MLTask.user s) - 1\<rparr>\<rparr>)"
    by (simp add: Lession1_execute_def)
next
  assume short: "Lession1_User.balance (Lession1_MLTask.user s) < 1"
  then have "Lession1_execute s = (Inl (ValueError msg_insufficient_balance), s)"
    by (simp add: Lession1_execute_def)
  then show "raises_ValueError (Lession1_execute s)" and "snd (Lession1_execute s) = s"
    by (simp_all add: raises_ValueError_simps)
next
  assume "1 \<le> Account.balance (MLTask.account tf)"
  then show "execute tf =
        (MLTask.model tf (MLTask.data tf),
         tf\<lparr>MLTask.account :=
             (MLTask.account tf)\<lparr>Account.balance := Account.balance (MLTask.account tf) - 1\<rparr>\<rparr>)"
    by (rule execute_on_doubles)
next
  assume "Account.balance (MLTask.account tf) < 1"
  then have "execute tf = (Inl (ValueError msg_insufficient_for_task), tf)"
    by (rule execute_on_doubles)
  then show "raises_ValueError (execute tf)" and "snd (execute tf) = tf"
    by (simp_all add: raises_ValueError_simps)
next
  assume "1 \<le> Lession1_User.balance (Lession1_MLTask.user sf)"
  then show "Lession1_execute sf =
        (Lession1_MLTask.model sf (Lession1_MLTask.data sf),
         sf\<lparr>Lession1_MLTask.user :=
             (Lession1_MLTask.user sf)
               \<lparr>Lession1_User.balance := Lession1_User.balance (Lession1_MLTask.user sf) - 1\<rparr>\<rparr>)"
    by (rule Lession1_execute_on_doubles)
next
  assume "Lession1_User.balance (Lession1_MLTask.user sf) < 1"
  then have "Lession1_execute sf = (Inl (ValueError msg_insufficient_balance), sf)"
    by (rule Lession1_execute_on_doubles)
  then show "raises_ValueError (Lession1_execute sf)" and "snd (Lession1_execute sf) = sf"
    by (simp_all add: raises_ValueError_simps)
next
  show "Finite r - 1 = round64 (r - 1)" and "PosInf - 1 = PosInf"
    by (rule double_minus_one)+
next
  assume "is_double (r - 1)"
  then show "Finite r - 1 = Finite (r - 1)"
    by (rule double_minus_one)
next
  assume "is_double r \<and> 1 \<le> r \<and> r \<le> 2 ^ 53"
  then have "is_double (r - 1)"
    by (intro double_minus_one_exact) simp_all
  then show "Finite r - 1 = Finite (r - 1)"
    by (rule double_minus_one)
qed

theorem execute_charges_or_fails_witness:
  "(let usr = \<lparr>User.user_id = 1, username = ''ann'', hashed_password = ''hash'', role = USER,
               created_at = 0\<rparr>;
        rich = MLTask_init 7 usr (Account_init 1 (5::real) 0) [[], []] ExampleMLModel;
        poor = MLTask_init 8 usr (Account_init 1 (1 / 2 :: real) 0) [[], []] ExampleMLModel
    in 1 \<le> Account.balance (MLTask.account rich) \<and>
       execute rich =
         (Inr (ExampleMLModel_predict [[], []]),
          MLTask_init 7 usr (Account_init 1 4 0) [[], []] ExampleMLModel) \<and>
       Account.balance (MLTask.account poor) < 1 \<and>
       raises_ValueError (execute poor) \<and> snd (execute poor) = poor) \<and>
   (let rich = Lession1_MLTask_init 7 (Lession1_User_init 1 ''ann'' ''pw'' (1::real) ''user'') [[]]
                 Lession1_ExampleMLModel;
        poor = Lession1_MLTask_init 8 (Lession1_User_init 2 ''bob'' ''pw'' (0::real) ''user'') [[]]
                 Lession1_ExampleMLModel
    in 1 \<le> Lession1_User.balance (Lession1_MLTask.user rich) \<and>
       Lession1_execute rich =
         (Inr (Lession1_ExampleMLModel_predict [[]]),
          Lession1_MLTask_init 7 (Lession1_User_init 1 ''ann'' ''pw'' 0 ''user'') [[]]
            Lession1_ExampleMLModel) \<and>
       Lession1_User.balance (Lession1_MLTask.user poor) < 1 \<and>
       raises_ValueError (Lession1_execute poor) \<and> snd (Lession1_execute poor) = poor) \<and>
   (let usr = \<lparr>User.user_id = 1, username = ''ann'', hashed_password = ''hash'', role = USER,
               created_at = 0\<rparr>;
        rich = MLTask_init 7 usr (Account_init 1 (Finite 5) 0) [[], []] ExampleMLModel;
        poor = MLTask_init 8 usr (Account_init 1 (Finite (1 / 2)) 0) [[], []] ExampleMLModel
    in 1 \<le> Account.balance (MLTask.account rich) \<and>
       execute rich =
         (Inr (ExampleMLModel_predict [[], []]),
          MLTask_init 7 usr (Account_init 1 (Finite 4) 0) [[], []] ExampleMLModel) \<and>
       Account.balance (MLTask.account poor) < 1 \<and>
       raises_ValueError (execute poor) \<and> snd (execute poor) = poor) \<and>
   (let rich = Lession1_MLTask_init 7 (Lession1_User_init 1 ''ann'' ''pw'' (Finite 5) ''user'')
                 [[]] Lession1_ExampleMLModel;
        poor = Lession1_MLTask_init 8 (Lession1_User_init 2 ''bob'' ''pw'' (Finite 0) ''user'')
                 [[]] Lession1_ExampleMLModel
    in 1 \<le> Lession1_User.balance (Lession1_MLTask.user rich) \<and>
       Lession1_execute rich =
         (Inr (Lession1_ExampleMLModel_predict [[]]),
          Lession1_MLTask_init 7 (Lession1_User_init 1 ''ann'' ''pw'' (Finite 4) ''user'') [[]]
            Lession1_ExampleMLModel) \<and>
       Lession1_User.balance (Lession1_MLTask.user poor) < 1 \<and>
       raises_ValueError (Lession1_execute poor) \<and> snd (Lession1_execute poor) = poor) \<and>
   is_double (5 - 1) \<and> is_double 5 \<and> (1::real) \<le> 5 \<and> (5::real) \<le> 2 ^ 53 \<and>
   Finite 5 - 1 = Finite 4"
proof -
  define usr where
    "usr = \<lparr>User.user_id = 1, username = ''ann'', hashed_password = ''hash'', role = USER,
             created_at = 0\<rparr>"
  define rich :: "real MLTask" where
    "rich = MLTask_init 7 usr (Account_init 1 5 0) [[], []] ExampleMLModel"
  define poor :: "real MLTask" where
    "poor = MLTask_init 8 usr (Account_init 1 (1 / 2) 0) [[], []] ExampleMLModel"
  define rich1 :: "real Lession1_MLTask" where
    "rich1 = Lession1_MLTask_init 7 (Lession1_User_init 1 ''ann'' ''pw'' 1 ''user'') [[]]
               Lession1_ExampleMLModel"
  define poor1 :: "real Lession1_MLTask" where
    "poor1 = Lession1_MLTask_init 8 (Lession1_User_init 2 ''bob'' ''pw'' 0 ''user'') [[]]
               Lession1_ExampleMLModel"
  define richf where
    "richf = MLTask_init 7 usr (Account_init 1 (Finite 5) 0) [[], []] ExampleMLModel"
  define poorf where
    "poorf = MLTask_init 8 usr (Account_init 1 (Finite (1 / 2)) 0) [[], []] ExampleMLModel"
  define richf1 where
    "richf1 = Lession1_MLTask_init 7 (Lession1_User_init 1 ''ann'' ''pw'' (Finite 5) ''user'')
                [[]] Lession1_ExampleMLModel"
  define poorf1 where
    "poorf1 = Lession1_MLTask_init 8 (Lession1_User_init 2 ''bob'' ''pw'' (Finite 0) ''user'')
                [[]] Lession1_ExampleMLModel"
  note defs = MLTask_init_def Account_init_def Lession1_MLTask_init_def Lession1_User_init_def
  have h1: "1 \<le> Account.balance (MLTask.account rich)"
    by (simp add: rich_def defs)
  have h2: "Account.balance (MLTask.account poor) < 1"
    by (simp add: poor_def defs)
  have h3: "1 \<le> Lession1_User.balance (Lession1_MLTask.user rich1)"
    by (simp add: rich1_def defs)
  have h4: "Lession1_User.balance (Lession1_MLTask.user poor1) < 1"
    by (simp add: poor1_def defs)
  have h5: "1 \<le> Account.balance (MLTask.account richf)"
    by (simp add: richf_def defs pyfloat_ord_simps)
  have h6: "Account.balance (MLTask.account poorf) < 1"
    by (simp add: poorf_def defs pyfloat_ord_simps)
  have h7: "1 \<le> Lession1_User.balance (Lession1_MLTask.user richf1)"
    by (simp add: richf1_def defs pyfloat_ord_simps)
  have h8: "Lession1_User.balance (Lession1_MLTask.user poorf1) < 1"
    by (simp add: poorf1_def defs pyfloat_ord_simps)
  have h9: "is_double (5 - 1)" and h10: "is_double 5"
    using round64_examples(4,5) by simp_all
  have h11: "(1::real) \<le> 5" and h12: "(5::real) \<le> 2 ^ 53"
    by simp_all
  note charged =
    execute_charges_or_fails
      [where t = rich and s = rich1 and tf = richf and sf = richf1 and r = 5]
  note refused =
    execute_charges_or_fails
      [where t = poor and s = poor1 and tf = poorf and sf = poorf1 and r = 5]
  from charged h10 h11 h12 have "Finite 5 - 1 = Finite (5 - 1)"
    by blast
  then have four: "Finite 5 - 1 = Finite 4"
    by simp
  from charged h1 have "execute rich =
        (MLTask.model rich (MLTask.data rich),
         rich\<lparr>MLTask.account :=
             (MLTask.account rich)\<lparr>Account.balance := Account.balance (MLTask.account rich) - 1\<rparr>\<rparr>)"
    by simp
  then have e1: "execute rich =
         (Inr (ExampleMLModel_predict [[], []]),
          MLTask_init 7 usr (Account_init 1 4 0) [[], []] ExampleMLModel)"
    by (simp add: rich_def defs ExampleMLModel_def)
  from charged h3 have "Lession1_execute rich1 =
        (Lession1_MLTask.model rich1 (Lession1_MLTask.data rich1),
         rich1\<lparr>Lession1_MLTask.user :=
             (Lession1_MLTask.user rich1)
               \<lparr>Lession1_User.balance := Lession1_User.balance (Lession1_MLTask.user rich1) - 1\<rparr>\<rparr>)"
    by simp
  then have e2: "Lession1_execute rich1 =
         (Inr (Lession1_ExampleMLModel_predict [[]]),
          Lession1_MLTask_init 7 (Lession1_User_init 1 ''ann'' ''pw'' 0 ''user'') [[]]
            Lession1_ExampleMLModel)"
    by (simp add: rich1_def defs Lession1_ExampleMLModel_def)
  from charged h5 have "execute richf =
        (MLTask.model richf (MLTask.data richf),
         richf\<lparr>MLTask.account :=
             (MLTask.account richf)
               \<lparr>Account.balance := Account.balance (MLTask.account richf) - 1\<rparr>\<rparr>)"
    by simp
  then have e3: "execute richf =
         (Inr (ExampleMLModel_predict [[], []]),
          MLTask_init 7 usr (Account_init 1 (Finite 4) 0) [[], []] ExampleMLModel)"
    using four by (simp add: richf_def defs ExampleMLModel_def)
  from charged h7 have "Lession1_execute richf1 =
        (Lession1_MLTask.model richf1 (Lession1_MLTask.data richf1),
         richf1\<lparr>Lession1_MLTask.user :=
             (Lession1_MLTask.user richf1)
               \<lparr>Lession1_User.balance :=
                  Lession1_User.balance (Lession1_MLTask.user richf1) - 1\<rparr>\<rparr>)"
    by simp
  then have e4: "Lession1_execute richf1 =
         (Inr (Lession1_ExampleMLModel_predict [[]]),
          Lession1_MLTask_init 7 (Lession1_User_init 1 ''ann'' ''pw'' (Finite 4) ''user'') [[]]
            Lession1_ExampleMLModel)"
    using four by (simp add: richf1_def defs Lession1_ExampleMLModel_def)
  from refused h2 have p1: "raises_ValueError (execute poor)" "snd (execute poor) = poor"
    by simp_all
  from refused h4
  have p2: "raises_ValueError (Lession1_execute poor1)" "snd (Lession1_execute poor1) = poor1"
    by simp_all
  from refused h6 have p3: "raises_ValueError (execute poorf)" "snd (execute poorf) = poorf"
    by simp_all
  from refused h8
  have p4: "raises_ValueError (Lession1_execute poorf1)" "snd (Lession1_execute poorf1) = poorf1"
    by simp_all
  have a: "1 \<le> Account.balance (MLTask.account rich) \<and>
       execute rich =
         (Inr (ExampleMLModel_predict [[], []]),
          MLTask_init 7 usr (Account_init 1 4 0) [[], []] ExampleMLModel) \<and>
       Account.balance (MLTask.account poor) < 1 \<and>
       raises_ValueError (execute poor) \<and> snd (execute poor) = poor"
    using h1 e1 h2 p1 by (intro conjI)
  have b: "1 \<le> Lession1_User.balance (Lession1_MLTask.user rich1) \<and>
       Lession1_execute rich1 =
         (Inr (Lession1_ExampleMLModel_predict [[]]),
          Lession1_MLTask_init 7 (Lession1_User_init 1 ''ann'' ''pw'' 0 ''user'') [[]]
            Lession1_ExampleMLModel) \<and>
       Lession1_User.balance (Lession1_MLTask.user poor1) < 1 \<and>
       raises_ValueError (Lession1_execute poor1) \<and> snd (Lession1_execute poor1) = poor1"
    using h3 e2 h4 p2 by (intro conjI)
  have c: "1 \<le> Account.balance (MLTask.account richf) \<and>
       execute richf =
         (Inr (ExampleMLModel_predict [[], []]),
          MLTask_init 7 usr (Account_init 1 (Finite 4) 0) [[], []] ExampleMLModel) \<and>
       Account.balance (MLTask.account poorf) < 1 \<and>
       raises_ValueError (execute poorf) \<and> snd (execute poorf) = poorf"
    using h5 e3 h6 p3 by (intro conjI)
  have d: "1 \<le> Lession1_User.balance (Lession1_MLTask.user richf1) \<and>
       Lession1_execute richf1 =
         (Inr (Lession1_ExampleMLModel_predict [[]]),
          Lession1_MLTask_init 7 (Lession1_User_init 1 ''ann'' ''pw'' (Finite 4) ''user'') [[]]
            Lession1_ExampleMLModel) \<and>
       Lession1_User.balance (Lession1_MLTask.user poorf1) < 1 \<and>
       raises_ValueError (Lession1_execute poorf1) \<and> snd (Lession1_execute poorf1) = poorf1"
    using h7 e4 h8 p4 by (intro conjI)
  from a b c d h9 h10 h11 h12 four show ?thesis
    unfolding Let_def usr_def rich_def poor_def rich1_def poor1_def richf_def poorf_def
      richf1_def poorf1_def
    by blast
qed

section \<open>Filtering a history by user\<close>

text \<open>
  The comprehension returns the filtered list when every stored record has the key, and
  raises \<open>KeyError\<close> otherwise. Every record that \<open>add_transaction\<close> or \<open>add_prediction\<close>
  stores has the key, so every history built from an empty one through these methods
  meets the condition.
\<close>

lemma has_user_id_iff: "has_user_id t \<longleftrightarrow> (\<exists>v. map_of t ''user_id'' = Some v)"
  by (simp add: has_user_id_def)

lemma user_id_equals_Some:
  "map_of t ''user_id'' = Some v \<Longrightarrow> user_id_equals uid t = py_eq_int v uid"
  by (simp add: user_id_equals_def)

lemma user_records_filter:
  "list_all has_user_id ts \<Longrightarrow> user_records ts uid = Inr (filter (user_id_equals uid) ts)"
proof (induction ts)
  case Nil
  show ?case by simp
next
  case (Cons t ts)
  from Cons.prems have "has_user_id t"
    by simp
  then obtain v where v: "map_of t ''user_id'' = Some v"
    unfolding has_user_id_iff ..
  from Cons.prems have "list_all has_user_id ts"
    by simp
  then have "user_records ts uid = Inr (filter (user_id_equals uid) ts)"
    by (rule Cons.IH)
  with v show ?case
    by (simp add: user_id_equals_Some)
qed

lemma user_records_KeyError:
  "\<not> list_all has_user_id ts \<Longrightarrow> user_records ts uid = Inl (KeyError ''user_id'')"
proof (induction ts)
  case Nil
  then show ?case by simp
next
  case (Cons t ts)
  show ?case
  proof (cases "map_of t ''user_id''")
    case None
    then show ?thesis by simp
  next
    case (Some v)
    then have "has_user_id t"
      unfolding has_user_id_iff ..
    with Cons.prems have "\<not> list_all has_user_id ts"
      by simp
    then have "user_records ts uid = Inl (KeyError ''user_id'')"
      by (rule Cons.IH)
    with Some show ?thesis by simp
  qed
qed

lemma add_transaction_has_user_id:
  "list_all has_user_id (TransactionHistory.transactions h) \<Longrightarrow>
     list_all has_user_id (TransactionHistory.transactions (add_transaction h uid aid amt d now))"
  by (simp add: add_transaction_def has_user_id_def)

lemma add_prediction_has_user_id:
  "list_all has_user_id (history p) \<Longrightarrow>
     list_all has_user_id (history (add_prediction p tid uid inp res now))"
  by (simp add: add_prediction_def has_user_id_def)

lemma Lession1_add_transaction_has_user_id:
  "list_all has_user_id (Lession1_TransactionHistory.transactions g) \<Longrightarrow>
     list_all has_user_id
       (Lession1_TransactionHistory.transactions (Lession1_add_transaction g u amt d))"
  by (simp add: Lession1_add_transaction_def has_user_id_def)

lemma init_has_user_id:
  "list_all has_user_id (TransactionHistory.transactions TransactionHistory_init)"
  "list_all has_user_id (history PredictionHistory_init)"
  "list_all has_user_id (Lession1_TransactionHistory.transactions Lession1_TransactionHistory_init)"
  by (simp_all add: TransactionHistory_init_def PredictionHistory_init_def
      Lession1_TransactionHistory_init_def)

text \<open>
  C5. List filtering is exact: for every history (\<open>TransactionHistory\<close> of either module,
  or \<open>PredictionHistory\<close>) whose records have a \<open>"user_id"\<close> field, and every user id,
  \<open>get_user_transactions\<close> / \<open>get_user_history\<close> returns exactly the stored records whose
  \<open>"user_id"\<close> field equals the id, in their stored (insertion) order, and leaves the
  history as it was.
\<close>

theorem history_filter_exact:
  "(list_all has_user_id (TransactionHistory.transactions h) \<longrightarrow>
      get_user_transactions h uid =
        (Inr (filter (user_id_equals uid) (TransactionHistory.transactions h)), h)) \<and>
   (list_all has_user_id (history p) \<longrightarrow>
      get_user_history p uid = (Inr (filter (user_id_equals uid) (history p)), p)) \<and>
   (list_all has_user_id (Lession1_TransactionHistory.transactions g) \<longrightarrow>
      Lession1_get_user_transactions g u =
        (Inr (filter (user_id_equals (Lession1_User.user_id u))
               (Lession1_TransactionHistory.transactions g)), g))"
  by (simp add: get_user_transactions_def get_user_history_def
      Lession1_get_user_transactions_def user_records_filter)

theorem history_filter_exact_witness:
  "(let h = add_transaction (add_transaction TransactionHistory_init 1 10 5 ''top up'' 100)
              2 20 7 ''top up'' 101
    in list_all has_user_id (TransactionHistory.transactions h) \<and>
       get_user_transactions h 1 =
         (Inr [[(''user_id'', PyInt 1), (''account_id'', PyInt 10), (''amount'', PyFloat 5),
                (''description'', PyStr ''top up''), (''timestamp'', PyDatetime 100)]], h)) \<and>
   (let p = add_prediction (add_prediction PredictionHistory_init 7 1 [] [] 100) 8 2 [] [] 101
    in list_all has_user_id (history p) \<and>
       get_user_history p 2 =
         (Inr [[(''task_id'', PyInt 8), (''user_id'', PyInt 2), (''input_data'', PyList []),
                (''result'', PyList []), (''timestamp'', PyDatetime 101)]], p)) \<and>
   (let ann = (Lession1_User_init_default 1 ''ann'' ''pw'' :: real Lession1_User);
        bob = (Lession1_User_init_default 2 ''bob'' ''pw'' :: real Lession1_User);
        g = Lession1_add_transaction
              (Lession1_add_transaction Lession1_TransactionHistory_init ann 5 ''top up'')
              bob 7 ''top up''
    in list_all has_user_id (Lession1_TransactionHistory.transactions g) \<and>
       Lession1_get_user_transactions g bob =
         (Inr [[(''user_id'', PyInt 2), (''amount'', PyFloat 7),
                (''description'', PyStr ''top up'')]], g))"
proof -
  define h where
    "h = add_transaction (add_transaction TransactionHistory_init 1 10 5 ''top up'' 100)
           2 20 7 ''top up'' 101"
  define p where
    "p = add_prediction (add_prediction PredictionHistory_init 7 1 [] [] 100) 8 2 [] [] 101"
  define ann :: "real Lession1_User" where "ann = Lession1_User_init_default 1 ''ann'' ''pw''"
  define bob :: "real Lession1_User" where "bob = Lession1_User_init_default 2 ''bob'' ''pw''"
  define g where
    "g = Lession1_add_transaction
           (Lession1_add_transaction Lession1_TransactionHistory_init ann 5 ''top up'')
           bob 7 ''top up''"
  have h1: "list_all has_user_id (TransactionHistory.transactions h)"
    unfolding h_def by (intro add_transaction_has_user_id init_has_user_id)
  have h2: "list_all has_user_id (history p)"
    unfolding p_def by (intro add_prediction_has_user_id init_has_user_id)
  have h3: "list_all has_user_id (Lession1_TransactionHistory.transactions g)"
    unfolding g_def by (intro Lession1_add_transaction_has_user_id init_has_user_id)
  from h1 h2 h3 history_filter_exact [of h 1 p g bob]
  have "get_user_transactions h 1 =
        (Inr (filter (user_id_equals 1) (TransactionHistory.transactions h)), h)"
    by blast
  moreover have "filter (user_id_equals 1) (TransactionHistory.transactions h) =
      [[(''user_id'', PyInt 1), (''account_id'', PyInt 10), (''amount'', PyFloat 5),
        (''description'', PyStr ''top up''), (''timestamp'', PyDatetime 100)]]"
    by (simp add: h_def add_transaction_def TransactionHistory_init_def user_id_equals_def)
  ultimately have e1: "get_user_transactions h 1 =
         (Inr [[(''user_id'', PyInt 1), (''account_id'', PyInt 10), (''amount'', PyFloat 5),
                (''description'', PyStr ''top up''), (''timestamp'', PyDatetime 100)]], h)"
    by simp
  from h2 history_filter_exact [of h 2 p g bob]
  have "get_user_history p 2 = (Inr (filter (user_id_equals 2) (history p)), p)"
    by blast
  moreover have "filter (user_id_equals 2) (history p) =
      [[(''task_id'', PyInt 8), (''user_id'', PyInt 2), (''input_data'', PyList []),
        (''result'', PyList []), (''timestamp'', PyDatetime 101)]]"
    by (simp add: p_def add_prediction_def PredictionHistory_init_def user_id_equals_def)
  ultimately have e2: "get_user_history p 2 =
         (Inr [[(''task_id'', PyInt 8), (''user_id'', PyInt 2), (''input_data'', PyList []),
                (''result'', PyList []), (''timestamp'', PyDatetime 101)]], p)"
    by simp
  from h3 history_filter_exact [of h 1 p g bob]
  have "Lession1_get_user_transactions g bob =
        (Inr (filter (user_id_equals (Lession1_User.user_id bob))
               (Lession1_TransactionHistory.transactions g)), g)"
    by blast
  moreover have "filter (user_id_equals (Lession1_User.user_id bob))
      (Lession1_TransactionHistory.transactions g) =
      [[(''user_id'', PyInt 2), (''amount'', PyFloat 7), (''description'', PyStr ''top up'')]]"
    by (simp add: g_def ann_def bob_def Lession1_add_transaction_def
        Lession1_TransactionHistory_init_def Lession1_User_init_default_def
        Lession1_User_init_def user_id_equals_def)
  ultimately have e3: "Lession1_get_user_transactions g bob =
         (Inr [[(''user_id'', PyInt 2), (''amount'', PyFloat 7),
                (''description'', PyStr ''top up'')]], g)"
    by simp
  from h1 h2 h3 e1 e2 e3 show ?thesis
    unfolding Let_def h_def p_def ann_def bob_def g_def by blast
qed

section \<open>Appending to a history\<close>

lemma append_one:
  "length (xs @ [r]) = Suc (length xs)"
  "take (length xs) (xs @ [r]) = xs"
  "\<forall>i<length xs. (xs @ [r]) ! i = xs ! i"
  "(xs @ [r]) ! length xs = r"
  by (simp_all add: nth_append)

text \<open>
  C6. History logs are append-only: every call of \<open>add_transaction\<close> (either module) or
  \<open>add_prediction\<close> makes the stored list longer by exactly one, keeps every record stored
  before unchanged at its position, and puts the new record, built from the arguments,
  at the end. (The getters of C5 return the history unchanged, so no method removes or
  edits a record.)
\<close>

theorem add_appends_one_record:
  "(let old = TransactionHistory.transactions h;
        new = TransactionHistory.transactions (add_transaction h uid aid amt d now)
    in length new = Suc (length old) \<and> take (length old) new = old \<and>
       (\<forall>i<length old. new ! i = old ! i) \<and>
       new ! length old =
         [(''user_id'', PyInt uid), (''account_id'', PyInt aid), (''amount'', PyFloat amt),
          (''description'', PyStr d), (''timestamp'', PyDatetime now)]) \<and>
   (let old = history p;
        new = history (add_prediction p tid uid inp res now)
    in length new = Suc (length old) \<and> take (length old) new = old \<and>
       (\<forall>i<length old. new ! i = old ! i) \<and>
       new ! length old =
         [(''task_id'', PyInt tid), (''user_id'', PyInt uid),
          (''input_data'', PyList (map PyDict inp)), (''result'', PyList (map PyDict res)),
          (''timestamp'', PyDatetime now)]) \<and>
   (let old = Lession1_TransactionHistory.transactions g;
        new = Lession1_TransactionHistory.transactions (Lession1_add_transaction g u amt d)
    in length new = Suc (length old) \<and> take (length old) new = old \<and>
       (\<forall>i<length old. new ! i = old ! i) \<and>
       new ! length old =
         [(''user_id'', PyInt (Lession1_User.user_id u)), (''amount'', PyFloat amt),
          (''description'', PyStr d)])"
  unfolding Let_def add_transaction_def add_prediction_def Lession1_add_transaction_def
  by (simp add: append_one)

theorem add_appends_one_record_witness:
  "(let h = add_transaction TransactionHistory_init 1 10 5 ''top up'' 100;
        h' = add_transaction h 2 20 7 ''task'' 101
    in 0 < length (TransactionHistory.transactions h) \<and>
       length (TransactionHistory.transactions h') = 2 \<and>
       TransactionHistory.transactions h' ! 0 = TransactionHistory.transactions h ! 0) \<and>
   (let p = add_prediction PredictionHistory_init 7 1 [] [] 100;
        p' = add_prediction p 8 2 [] [] 101
    in 0 < length (history p) \<and> length (history p') = 2 \<and> history p' ! 0 = history p ! 0) \<and>
   (let ann = (Lession1_User_init_default 1 ''ann'' ''pw'' :: real Lession1_User);
        g = Lession1_add_transaction Lession1_TransactionHistory_init ann 5 ''top up'';
        g' = Lession1_add_transaction g ann 7 ''task''
    in 0 < length (Lession1_TransactionHistory.transactions g) \<and>
       length (Lession1_TransactionHistory.transactions g') = 2 \<and>
       Lession1_TransactionHistory.transactions g' ! 0 =
         Lession1_TransactionHistory.transactions g ! 0)"
proof -
  define h where "h = add_transaction TransactionHistory_init 1 10 5 ''top up'' 100"
  define p where "p = add_prediction PredictionHistory_init 7 1 [] [] 100"
  define ann :: "real Lession1_User" where "ann = Lession1_User_init_default 1 ''ann'' ''pw''"
  define g where "g = Lession1_add_transaction Lession1_TransactionHistory_init ann 5 ''top up''"
  have h1: "0 < length (TransactionHistory.transactions h)"
    and l1: "length (TransactionHistory.transactions h) = 1"
    by (simp_all add: h_def add_transaction_def TransactionHistory_init_def)
  have h2: "0 < length (history p)" and l2: "length (history p) = 1"
    by (simp_all add: p_def add_prediction_def PredictionHistory_init_def)
  have h3: "0 < length (Lession1_TransactionHistory.transactions g)"
    and l3: "length (Lession1_TransactionHistory.transactions g) = 1"
    by (simp_all add: g_def Lession1_add_transaction_def Lession1_TransactionHistory_init_def)
  note step =
    add_appends_one_record
      [where h = h and uid = 2 and aid = 20 and amt = 7 and d = "''task''" and now = 101
         and p = p and tid = 8 and inp = "[]" and res = "[]" and g = g and u = ann,
       unfolded Let_def]
  from step h1 l1
  have a: "length (TransactionHistory.transactions (add_transaction h 2 20 7 ''task'' 101)) = 2"
    "TransactionHistory.transactions (add_transaction h 2 20 7 ''task'' 101) ! 0 =
       TransactionHistory.transactions h ! 0"
    by simp_all
  from step h2 l2
  have b: "length (history (add_prediction p 8 2 [] [] 101)) = 2"
    "history (add_prediction p 8 2 [] [] 101) ! 0 = history p ! 0"
    by simp_all
  from step h3 l3
  have c: "length (Lession1_TransactionHistory.transactions
             (Lession1_add_transaction g ann 7 ''task'')) = 2"
    "Lession1_TransactionHistory.transactions (Lession1_add_transaction g ann 7 ''task'') ! 0 =
       Lession1_TransactionHistory.transactions g ! 0"
    by simp_all
  from h1 h2 h3 a b c show ?thesis
    unfolding Let_def h_def p_def ann_def g_def by blast
qed

section \<open>The prediction stubs\<close>

lemma ExampleMLModel_predict_nth:
  "i < length xs \<Longrightarrow>
     ExampleMLModel_predict xs ! i =
       [(''prediction'', PyInt (int i mod 2)), (''confidence'', PyFloat 0.95)]"
  by (simp add: ExampleMLModel_predict_def nth_enumerate_eq)

lemma Lession1_ExampleMLModel_predict_nth:
  "i < length xs \<Longrightarrow> Lession1_ExampleMLModel_predict xs ! i = [(''prediction'', PyInt 1)]"
  by (simp add: Lession1_ExampleMLModel_predict_def)

lemma ExampleMLModel_predict_length: "length (ExampleMLModel_predict xs) = length xs"
  by (simp add: ExampleMLModel_predict_def)

lemma Lession1_ExampleMLModel_predict_length:
  "length (Lession1_ExampleMLModel_predict xs) = length xs"
  by (simp add: Lession1_ExampleMLModel_predict_def)

text \<open>
  C10. Prediction output matches input in length: for every input list,
  \<open>ExampleMLModel.predict\<close> of either module returns exactly one result per input entry.
\<close>

theorem prediction_count_matches_input:
  "length (ExampleMLModel_predict xs) = length xs \<and>
   length (Lession1_ExampleMLModel_predict xs) = length xs"
  by (simp add: ExampleMLModel_predict_length Lession1_ExampleMLModel_predict_length)

text \<open>
  C7 does not hold. The two stubs do not return equal lists: on the one-element input
  \<open>[{}]\<close> the module \<open>src/mod_serv.py\<close> answers \<open>[{"prediction": 0, "confidence": 0.95}]\<close>
  and the Lession1 module \<open>[{"prediction": 1}]\<close>.
\<close>

theorem predict_stubs_differ:
  "ExampleMLModel_predict [[]] \<noteq> Lession1_ExampleMLModel_predict [[]]"
  by (simp add: ExampleMLModel_predict_def Lession1_ExampleMLModel_predict_def)

text \<open>
  C7, as the code has it. The two stubs agree in shape only: for every input list both
  return one dictionary per input entry, so the result lists have the same length; at
  index \<open>i\<close> the module \<open>src/mod_serv.py\<close> returns
  \<open>{"prediction": i % 2, "confidence": 0.95}\<close> and the Lession1 module \<open>{"prediction": 1}\<close>,
  dictionaries with different key sets; hence the result lists are equal exactly when
  the input is empty.
\<close>

theorem predict_stubs_agree_in_shape_only:
  "length (ExampleMLModel_predict xs) = length (Lession1_ExampleMLModel_predict xs) \<and>
   (\<forall>i<length xs.
      ExampleMLModel_predict xs ! i =
        [(''prediction'', PyInt (int i mod 2)), (''confidence'', PyFloat 0.95)] \<and>
      Lession1_ExampleMLModel_predict xs ! i = [(''prediction'', PyInt 1)]) \<and>
   (ExampleMLModel_predict xs = Lession1_ExampleMLModel_predict xs \<longleftrightarrow> xs = [])"
proof (intro conjI allI impI)
  show "length (ExampleMLModel_predict xs) = length (Lession1_ExampleMLModel_predict xs)"
    by (simp add: ExampleMLModel_predict_length Lession1_ExampleMLModel_predict_length)
next
  fix i assume "i < length xs"
  then show "ExampleMLModel_predict xs ! i =
        [(''prediction'', PyInt (int i mod 2)), (''confidence'', PyFloat 0.95)]"
    and "Lession1_ExampleMLModel_predict xs ! i = [(''prediction'', PyInt 1)]"
    by (simp_all add: ExampleMLModel_predict_nth Lession1_ExampleMLModel_predict_nth)
next
  show "(ExampleMLModel_predict xs = Lession1_ExampleMLModel_predict xs) = (xs = [])"
  proof (cases xs)
    case Nil
    then show ?thesis
      by (simp add: ExampleMLModel_predict_def Lession1_ExampleMLModel_predict_def)
  next
    case (Cons x xs')
    then show ?thesis
      by (simp add: ExampleMLModel_predict_def Lession1_ExampleMLModel_predict_def)
  qed
qed

theorem predict_stubs_agree_in_shape_only_witness:
  "(1::nat) < length [[], [(''x'', PyInt 3)]] \<and>
   length (ExampleMLModel_predict [[], [(''x'', PyInt 3)]]) =
     length (Lession1_ExampleMLModel_predict [[], [(''x'', PyInt 3)]]) \<and>
   ExampleMLModel_predict [[], [(''x'', PyInt 3)]] ! 1 =
     [(''prediction'', PyInt 1), (''confidence'', PyFloat 0.95)] \<and>
   Lession1_ExampleMLModel_predict [[], [(''x'', PyInt 3)]] ! 1 = [(''prediction'', PyInt 1)] \<and>
   ExampleMLModel_predict [[], [(''x'', PyInt 3)]] \<noteq>
     Lession1_ExampleMLModel_predict [[], [(''x'', PyInt 3)]]"
proof -
  have h: "(1::nat) < length [[], [(''x'', PyInt 3)]]"
    by simp
  from h predict_stubs_agree_in_shape_only [of "[[], [(''x'', PyInt 3)]]"]
  show ?thesis by auto
qed

end
